theory Spec2Isabelle
  imports Complex_Main "HOL-Library.Sublist" "HOL-Library.Word"
begin

section \<open>Python values of the Coinstore connector\<close>

text \<open>
  Frames, REST responses and request parameters are what \<^verbatim>\<open>json.loads\<close> builds:
  \<^verbatim>\<open>None\<close>, booleans, unbounded integers, floats, strings, lists and dictionaries with
  string keys. Floats are kept abstract: the type parameter \<open>'f\<close> is the type of Python
  floats, and every float operation the connector uses is a field of the runtime record
  below, so that nothing is assumed about binary rounding. Strings are byte lists (UTF-8).
  A dictionary is an association list in insertion order; looking a key up takes the
  first entry with that key.
\<close>

datatype 'f json =
    JNull
  | JBool bool
  | JInt int
  | JFloat 'f
  | JStr string
  | JArr "'f json list"
  | JObj "(string \<times> 'f json) list"

type_synonym 'f dict = "(string \<times> 'f json) list"

text \<open>The exceptions the modelled code can raise.\<close>

datatype error =
    KeyError
  | TypeError
  | ValueError
  | IndexError
  | AttributeError
  | OverflowError
  | InvalidOperation
  | ValueDuplicationError
  | UnknownInstrument
  | UnknownSymbol

text \<open>\<^verbatim>\<open>d.get(k)\<close>: the value, or \<^verbatim>\<open>None\<close> when the key is absent.\<close>

definition dict_get :: "'f dict \<Rightarrow> string \<Rightarrow> 'f json" where
  "dict_get d k = (case map_of d k of None \<Rightarrow> JNull | Some v \<Rightarrow> v)"

text \<open>\<^verbatim>\<open>d[k]\<close> on a dictionary: raises \<^verbatim>\<open>KeyError\<close> when the key is absent.\<close>

definition dict_item :: "'f dict \<Rightarrow> string \<Rightarrow> error + 'f json" where
  "dict_item d k = (case map_of d k of None \<Rightarrow> Inl KeyError | Some v \<Rightarrow> Inr v)"

text \<open>\<^verbatim>\<open>v[k]\<close> with a string key on any value: only a dictionary can be subscripted so.\<close>

definition subscript :: "'f json \<Rightarrow> string \<Rightarrow> error + 'f json" where
  "subscript v k = (case v of JObj d \<Rightarrow> dict_item d k | _ \<Rightarrow> Inl TypeError)"

text \<open>\<^verbatim>\<open>d[k] = v\<close>: an existing key keeps its position, a new key goes last.\<close>

fun dict_set :: "('k \<times> 'v) list \<Rightarrow> 'k \<Rightarrow> 'v \<Rightarrow> ('k \<times> 'v) list" where
  "dict_set [] k v = [(k, v)]"
| "dict_set ((k', v') # d) k v = (if k' = k then (k, v) # d else (k', v') # dict_set d k v)"

section \<open>Constants (coinstore\_constants.py)\<close>

definition DIFF_EVENT_TYPE :: string where
  "DIFF_EVENT_TYPE = ''depth''"

definition TRADE_EVENT_TYPE :: string where
  "TRADE_EVENT_TYPE = ''trade''"

section \<open>Message router\<close>

text \<open>
  \<^verbatim>\<open>_channel_originating_message\<close>: two independent \<^verbatim>\<open>if\<close> statements, the second
  one assigning after the first. The queue keys are set in the constructor to
  \<^verbatim>\<open>TRADE_EVENT_TYPE\<close> and \<^verbatim>\<open>DIFF_EVENT_TYPE\<close>.
\<close>

definition channel_originating_message :: "'f dict \<Rightarrow> string" where
  "channel_originating_message event_message =
     (let channel = '''';
          channel = (if dict_get event_message ''T'' = JStr TRADE_EVENT_TYPE
                        \<or> dict_get event_message ''tradeId'' \<noteq> JNull
                     then TRADE_EVENT_TYPE else channel);
          channel = (if dict_get event_message ''T'' = JStr DIFF_EVENT_TYPE
                     then DIFF_EVENT_TYPE else channel)
      in channel)"

section \<open>The runtime outside the repository\<close>

text \<open>
  A \<^verbatim>\<open>decimal.Decimal\<close> value: a finite number with sign, coefficient and exponent
  (its value is \<open>\<plusminus> coefficient * 10 ^ exponent\<close>), an infinity, or a (quiet or
  signalling) NaN with a payload.
\<close>

datatype decimal =
    DFinite bool nat int
  | DInfinite bool
  | DNaN bool bool nat

text \<open>
  Functions of the Python runtime, the standard library and the libraries of the bot that
  the connector calls and that are not part of the repository's source. They are
  parameters of the model: a theorem holds for every runtime.
  \<^item> \<open>float_of_int\<close>: \<^verbatim>\<open>float(n)\<close> for the small literals the code uses (\<^verbatim>\<open>1e3\<close>, \<^verbatim>\<open>1000\<close>);
  \<^item> \<open>float_mul\<close>, \<open>float_truediv\<close>: float \<^verbatim>\<open>*\<close> and \<^verbatim>\<open>/\<close> (the divisor is never zero here);
  \<^item> \<open>int_truediv\<close>: \<^verbatim>\<open>int / int\<close>, \<open>None\<close> when the quotient is too large for a float
    (\<^verbatim>\<open>OverflowError\<close>);
  \<^item> \<open>int_of_float\<close>: \<^verbatim>\<open>int(x)\<close>, which raises on infinities and NaN;
  \<^item> \<open>float_eq_int\<close>: \<^verbatim>\<open>x == n\<close> for a float and an integer;
  \<^item> \<open>Decimal_of_str\<close>, \<open>Decimal_of_float\<close>, \<open>Decimal_of_list\<close>: the \<^verbatim>\<open>Decimal\<close>
    constructor on a string (\<open>None\<close>: \<^verbatim>\<open>InvalidOperation\<close>), on a float (the exact
    value of the float) and on a sequence;
  \<^item> \<open>str_other\<close>: \<^verbatim>\<open>str(v)\<close> for floats, lists and dictionaries;
  \<^item> \<open>str_upper\<close>: \<^verbatim>\<open>str.upper\<close>;
  \<^item> \<open>combine_to_hb_trading_pair\<close>: the bot's helper joining base and quote asset;
  \<^item> \<open>hmac_sha256\<close>: the HMAC-SHA256 digest (bytes) of a message under a key.
\<close>

record 'f runtime =
  float_of_int :: "int \<Rightarrow> 'f"
  float_mul :: "'f \<Rightarrow> 'f \<Rightarrow> 'f"
  float_truediv :: "'f \<Rightarrow> 'f \<Rightarrow> 'f"
  int_truediv :: "int \<Rightarrow> int \<Rightarrow> 'f option"
  int_of_float :: "'f \<Rightarrow> error + int"
  float_eq_int :: "'f \<Rightarrow> int \<Rightarrow> bool"
  Decimal_of_str :: "string \<Rightarrow> decimal option"
  Decimal_of_float :: "'f \<Rightarrow> decimal"
  Decimal_of_list :: "'f json list \<Rightarrow> error + decimal"
  str_other :: "'f json \<Rightarrow> string"
  str_upper :: "string \<Rightarrow> string"
  combine_to_hb_trading_pair :: "string \<Rightarrow> string \<Rightarrow> string"
  hmac_sha256 :: "string \<Rightarrow> string \<Rightarrow> 8 word list"

text \<open>\<^verbatim>\<open>Decimal(v)\<close>: exact on integers (a boolean is an integer), delegated otherwise.\<close>

definition decimal_of_int :: "int \<Rightarrow> decimal" where
  "decimal_of_int n = DFinite (n < 0) (nat \<bar>n\<bar>) 0"

definition Decimal :: "'f runtime \<Rightarrow> 'f json \<Rightarrow> error + decimal" where
  "Decimal L v =
     (case v of
        JInt n \<Rightarrow> Inr (decimal_of_int n)
      | JBool b \<Rightarrow> Inr (decimal_of_int (if b then 1 else 0))
      | JFloat x \<Rightarrow> Inr (Decimal_of_float L x)
      | JStr s \<Rightarrow> (case Decimal_of_str L s of None \<Rightarrow> Inl InvalidOperation | Some d \<Rightarrow> Inr d)
      | JArr xs \<Rightarrow> Decimal_of_list L xs
      | JNull \<Rightarrow> Inl TypeError
      | JObj d \<Rightarrow> Inl TypeError)"

text \<open>\<^verbatim>\<open>v / 1000\<close>: true division of a number by the integer literal.\<close>

definition truediv_1000 :: "'f runtime \<Rightarrow> 'f json \<Rightarrow> error + 'f" where
  "truediv_1000 L v =
     (case v of
        JInt n \<Rightarrow> (case int_truediv L n 1000 of None \<Rightarrow> Inl OverflowError | Some x \<Rightarrow> Inr x)
      | JBool b \<Rightarrow>
          (case int_truediv L (if b then 1 else 0) 1000 of
             None \<Rightarrow> Inl OverflowError | Some x \<Rightarrow> Inr x)
      | JFloat x \<Rightarrow> Inr (float_truediv L x (float_of_int L 1000))
      | _ \<Rightarrow> Inl TypeError)"

text \<open>\<^verbatim>\<open>str(n)\<close> for an integer: its decimal digits.\<close>

definition digit_char :: "nat \<Rightarrow> char" where
  "digit_char n = ''0123456789'' ! n"

function str_nat :: "nat \<Rightarrow> string" where
  "str_nat n = (if n < 10 then [digit_char n] else str_nat (n div 10) @ [digit_char (n mod 10)])"
  by pat_completeness auto
termination
  by (relation "measure id") auto

declare str_nat.simps [simp del]

definition str_int :: "int \<Rightarrow> string" where
  "str_int i = (if i < 0 then CHR ''-'' # str_nat (nat (- i)) else str_nat (nat i))"

text \<open>\<^verbatim>\<open>str(v)\<close>, which is also what an f-string field \<^verbatim>\<open>{v}\<close> inserts.\<close>

definition py_str :: "'f runtime \<Rightarrow> 'f json \<Rightarrow> string" where
  "py_str L v =
     (case v of
        JNull \<Rightarrow> ''None''
      | JBool b \<Rightarrow> (if b then ''True'' else ''False'')
      | JInt n \<Rightarrow> str_int n
      | JStr s \<Rightarrow> s
      | _ \<Rightarrow> str_other L v)"

text \<open>
  Iterating a value in a \<^verbatim>\<open>for\<close> loop: a list gives its elements, a dictionary its
  keys, a string its characters (each a string); nothing else is iterable.
\<close>

definition py_iter :: "'f json \<Rightarrow> error + 'f json list" where
  "py_iter v =
     (case v of
        JArr xs \<Rightarrow> Inr xs
      | JObj d \<Rightarrow> Inr (map (\<lambda>kv. JStr (fst kv)) d)
      | JStr s \<Rightarrow> Inr (map (\<lambda>c. JStr [c]) s)
      | _ \<Rightarrow> Inl TypeError)"

text \<open>\<^verbatim>\<open>f(**v)\<close>: the argument after \<^verbatim>\<open>**\<close> must be a mapping.\<close>

definition kwargs :: "'f json \<Rightarrow> error + 'f dict" where
  "kwargs v = (case v of JObj d \<Rightarrow> Inr d | _ \<Rightarrow> Inl TypeError)"

section \<open>Order book messages\<close>

datatype OrderBookMessageType = SNAPSHOT | DIFF | TRADE

datatype TradeType = BUY | SELL

text \<open>
  A value of a message's content dictionary: a plain value (a string, a float, or a
  value passed through from the frame), a \<^verbatim>\<open>Decimal\<close>, or the float of a
  \<^verbatim>\<open>TradeType\<close> member's numeric value (the enumeration's numbers are declared
  outside the source, so the member itself is kept).
\<close>

datatype 'f pyval =
    PyJson "'f json"
  | PyDecimal decimal
  | PyTradeTypeFloat TradeType

record 'f OrderBookMessage =
  msg_type :: OrderBookMessageType
  content :: "(string \<times> 'f pyval) list"
  timestamp :: 'f

section \<open>Instrument and channel registry\<close>

text \<open>
  The connector's registry: the symbol map (venue symbol to trading pair, unset until
  the exchange metadata is loaded) and \<^verbatim>\<open>_symbol_to_id_map\<close> (venue symbol to
  channel id).
\<close>

record 'f connector =
  trading_pair_symbol_map :: "(string \<times> string) list option"
  symbol_to_id_map :: "'f dict"

text \<open>
  Modelled from the spec: \<^verbatim>\<open>trading_pair_associated_to_exchange_symbol\<close> is a method of
  the connector's base class, which is not in the source. The spec: the diff normalizer
  "resolves the instrument from the venue symbol carried in the frame via the Registry
  (fails with UnknownSymbol if resolution fails)".
\<close>

definition trading_pair_associated_to_exchange_symbol ::
  "'f connector \<Rightarrow> 'f json \<Rightarrow> error + string" where
  "trading_pair_associated_to_exchange_symbol c symbol =
     (case (trading_pair_symbol_map c, symbol) of
        (Some m, JStr s) \<Rightarrow>
          (case map_of m s of None \<Rightarrow> Inl UnknownSymbol | Some tp \<Rightarrow> Inr tp)
      | _ \<Rightarrow> Inl UnknownSymbol)"

text \<open>
  Modelled from the spec: \<^verbatim>\<open>exchange_symbol_associated_to_pair\<close> is a method of the
  connector's base class, which is not in the source. The spec:
  "resolve(instrument) -> VenueSymbol fails with UnknownInstrument if no mapping exists";
  the mapping is bidirectional and unique.
\<close>

definition exchange_symbol_associated_to_pair ::
  "'f connector \<Rightarrow> string \<Rightarrow> error + string" where
  "exchange_symbol_associated_to_pair c trading_pair =
     (case trading_pair_symbol_map c of
        None \<Rightarrow> Inl UnknownInstrument
      | Some m \<Rightarrow>
          (case map_of (map (\<lambda>kv. (snd kv, fst kv)) m) trading_pair of
             None \<Rightarrow> Inl UnknownInstrument
           | Some s \<Rightarrow> Inr s))"

section \<open>Normalizers (coinstore\_api\_order\_book\_data\_source.py)\<close>

subsection \<open>Trades\<close>

text \<open>
  The inner function \<^verbatim>\<open>parse_message(**msg)\<close> of \<^verbatim>\<open>_parse_trade_message\<close>, up to the
  message it hands to \<^verbatim>\<open>put_nowait\<close>. The content dictionary is built entry by entry,
  then the timestamp is computed; the first failing step raises.
\<close>

definition trade_type_of :: "'f json \<Rightarrow> TradeType" where
  "trade_type_of taker_side = (if taker_side = JStr ''BUY'' then BUY else SELL)"

definition parse_message ::
  "'f runtime \<Rightarrow> 'f connector \<Rightarrow> 'f dict \<Rightarrow> error + 'f OrderBookMessage" where
  "parse_message L c msg =
     (case dict_item msg ''tradeId'' of Inl e \<Rightarrow> Inl e | Inr trade_id \<Rightarrow>
     (case dict_item msg ''symbol'' of Inl e \<Rightarrow> Inl e | Inr symbol \<Rightarrow>
     (case trading_pair_associated_to_exchange_symbol c symbol of
        Inl e \<Rightarrow> Inl e | Inr trading_pair \<Rightarrow>
     (case dict_item msg ''takerSide'' of Inl e \<Rightarrow> Inl e | Inr taker_side \<Rightarrow>
     (case dict_item msg ''volume'' of Inl e \<Rightarrow> Inl e | Inr volume \<Rightarrow>
     (case Decimal L volume of Inl e \<Rightarrow> Inl e | Inr amount \<Rightarrow>
     (case dict_item msg ''price'' of Inl e \<Rightarrow> Inl e | Inr price \<Rightarrow>
     (case Decimal L price of Inl e \<Rightarrow> Inl e | Inr price_dec \<Rightarrow>
     (case dict_item msg ''time'' of Inl e \<Rightarrow> Inl e | Inr time \<Rightarrow>
     (case truediv_1000 L time of Inl e \<Rightarrow> Inl e | Inr ts \<Rightarrow>
        Inr \<lparr>msg_type = TRADE,
             content =
               [(''trade_id'', PyJson trade_id),
                (''trading_pair'', PyJson (JStr trading_pair)),
                (''trade_type'', PyTradeTypeFloat (trade_type_of taker_side)),
                (''amount'', PyDecimal amount),
                (''price'', PyDecimal price_dec)],
             timestamp = ts\<rparr>))))))))))"

text \<open>
  The loop \<^verbatim>\<open>for trade_data in raw_message["data"]: await parse_message(**trade_data)\<close>
  over the elements, with the output queue passed through. The result is the queue and
  the exception that ended the loop, if any: records put before it stay on the queue.
\<close>

fun parse_entries ::
  "'f runtime \<Rightarrow> 'f connector \<Rightarrow> 'f json list \<Rightarrow> 'f OrderBookMessage list
     \<Rightarrow> 'f OrderBookMessage list \<times> error option" where
  "parse_entries L c [] message_queue = (message_queue, None)"
| "parse_entries L c (trade_data # rest) message_queue =
     (case kwargs trade_data of
        Inl e \<Rightarrow> (message_queue, Some e)
      | Inr msg \<Rightarrow>
          (case parse_message L c msg of
             Inl e \<Rightarrow> (message_queue, Some e)
           | Inr trade_message \<Rightarrow> parse_entries L c rest (message_queue @ [trade_message])))"

text \<open>\<^verbatim>\<open>_parse_trade_message\<close>: the batch loop, then the incremental update.\<close>

definition parse_trade_message ::
  "'f runtime \<Rightarrow> 'f connector \<Rightarrow> 'f dict \<Rightarrow> 'f OrderBookMessage list
     \<Rightarrow> 'f OrderBookMessage list \<times> error option" where
  "parse_trade_message L c raw_message message_queue =
     (case dict_item raw_message ''data'' of
        Inl e \<Rightarrow> (message_queue, Some e)
      | Inr data \<Rightarrow>
          (case py_iter data of
             Inl e \<Rightarrow> (message_queue, Some e)
           | Inr entries \<Rightarrow>
               (case parse_entries L c entries message_queue of
                  (q, Some e) \<Rightarrow> (q, Some e)
                | (q, None) \<Rightarrow>
                    if dict_get raw_message ''tradeId'' \<noteq> JNull
                    then (case parse_message L c raw_message of
                            Inl e \<Rightarrow> (q, Some e)
                          | Inr trade_message \<Rightarrow> (q @ [trade_message], None))
                    else (q, None))))"

subsection \<open>Diffs\<close>

text \<open>
  \<^verbatim>\<open>_parse_order_book_diff_message\<close>; \<open>now\<close> is what \<^verbatim>\<open>self._time()\<close> returns. The
  symbol is resolved before the bid and ask arrays are read.
\<close>

definition parse_order_book_diff_message ::
  "'f connector \<Rightarrow> 'f \<Rightarrow> 'f dict \<Rightarrow> 'f OrderBookMessage list
     \<Rightarrow> 'f OrderBookMessage list \<times> error option" where
  "parse_order_book_diff_message c now raw_message message_queue =
     (case dict_item raw_message ''symbol'' of
        Inl e \<Rightarrow> (message_queue, Some e) | Inr symbol \<Rightarrow>
     (case trading_pair_associated_to_exchange_symbol c symbol of
        Inl e \<Rightarrow> (message_queue, Some e) | Inr trading_pair \<Rightarrow>
     (case dict_item raw_message ''b'' of
        Inl e \<Rightarrow> (message_queue, Some e) | Inr bids \<Rightarrow>
     (case dict_item raw_message ''a'' of
        Inl e \<Rightarrow> (message_queue, Some e) | Inr asks \<Rightarrow>
        (message_queue @
           [\<lparr>msg_type = DIFF,
             content =
               [(''trading_pair'', PyJson (JStr trading_pair)),
                (''update_id'', PyJson (JFloat now)),
                (''bids'', PyJson bids),
                (''asks'', PyJson asks)],
             timestamp = now\<rparr>],
         None)))))"

subsection \<open>Snapshots\<close>

definition REST_URL :: string where
  "REST_URL = ''https://api.coinstore.com/api''"

definition ORDERBOOK_DEPTH_PATH :: string where
  "ORDERBOOK_DEPTH_PATH = ''/v1/market/depth/{symbol}''"

definition public_rest_url :: "string \<Rightarrow> string" where
  "public_rest_url path_url = REST_URL @ path_url"

text \<open>
  \<^verbatim>\<open>template.format(*args)\<close> called with positional arguments only. \<^verbatim>\<open>{{\<close> and
  \<^verbatim>\<open>}}\<close> are literal braces; a field \<^verbatim>\<open>{}\<close> takes the next argument, \<^verbatim>\<open>{3}\<close> the
  argument at that index, and a field with a name is looked up among the keyword
  arguments, of which there are none: \<^verbatim>\<open>KeyError\<close>. Conversions and format
  specifications inside a field are not modelled (the connector's templates have none).
\<close>

definition nat_of_digits :: "string \<Rightarrow> nat" where
  "nat_of_digits ds = foldl (\<lambda>n c. 10 * n + (of_char c - 48)) 0 ds"

definition is_digit :: "char \<Rightarrow> bool" where
  "is_digit c = (48 \<le> (of_char c :: nat) \<and> (of_char c :: nat) \<le> 57)"

function str_format :: "string \<Rightarrow> string list \<Rightarrow> nat \<Rightarrow> error + string" where
  "str_format [] args i = Inr []"
| "str_format (c # cs) args i =
     (if c = CHR ''{'' then
        (if cs \<noteq> [] \<and> hd cs = CHR ''{'' then
           (case str_format (tl cs) args i of Inl e \<Rightarrow> Inl e | Inr r \<Rightarrow> Inr (CHR ''{'' # r))
         else
           (let name = takeWhile (\<lambda>x. x \<noteq> CHR ''}'') cs;
                rest = dropWhile (\<lambda>x. x \<noteq> CHR ''}'') cs
            in if rest = [] then Inl ValueError
               else if name = [] then
                 (if i < length args then
                    (case str_format (tl rest) args (Suc i) of
                       Inl e \<Rightarrow> Inl e | Inr r \<Rightarrow> Inr (args ! i @ r))
                  else Inl IndexError)
               else if list_all is_digit name then
                 (if nat_of_digits name < length args then
                    (case str_format (tl rest) args i of
                       Inl e \<Rightarrow> Inl e | Inr r \<Rightarrow> Inr (args ! nat_of_digits name @ r))
                  else Inl IndexError)
               else Inl KeyError))
      else if c = CHR ''}'' then
        (if cs \<noteq> [] \<and> hd cs = CHR ''}'' then
           (case str_format (tl cs) args i of Inl e \<Rightarrow> Inl e | Inr r \<Rightarrow> Inr (CHR ''}'' # r))
         else Inl ValueError)
      else (case str_format cs args i of Inl e \<Rightarrow> Inl e | Inr r \<Rightarrow> Inr (c # r)))"
  by pat_completeness auto
termination
proof (relation "measure (\<lambda>(t, args, i). length t)")
  show "wf (measure (\<lambda>(t, args, i). length t))"
    by simp
qed (auto simp: less_Suc_eq_le intro: le_trans [OF diff_le_self length_dropWhile_le])

declare str_format.simps [simp del]

text \<open>
  \<^verbatim>\<open>_request_order_book_snapshot\<close>: the venue symbol is resolved, the URL is built from
  the depth path by \<^verbatim>\<open>.format(symbol)\<close>, and the request is executed.
  \<open>execute_request url params\<close> is the REST transport (a collaborator).
\<close>

definition request_order_book_snapshot ::
  "'f connector \<Rightarrow> (string \<Rightarrow> string \<Rightarrow> error + 'f json) \<Rightarrow> string \<Rightarrow> error + 'f json" where
  "request_order_book_snapshot c execute_request trading_pair =
     (case exchange_symbol_associated_to_pair c trading_pair of
        Inl e \<Rightarrow> Inl e | Inr symbol \<Rightarrow>
     (case str_format (public_rest_url ORDERBOOK_DEPTH_PATH) [symbol] 0 of
        Inl e \<Rightarrow> Inl e | Inr url \<Rightarrow> execute_request url symbol))"

text \<open>
  The statements of \<^verbatim>\<open>_order_book_snapshot\<close> that follow the awaited request: the
  message built from the response; \<open>now\<close> is what \<^verbatim>\<open>self._time()\<close> returns once the
  response has arrived.
\<close>

definition order_book_snapshot_message ::
  "string \<Rightarrow> 'f \<Rightarrow> 'f json \<Rightarrow> error + 'f OrderBookMessage" where
  "order_book_snapshot_message trading_pair now snapshot_response =
     (case subscript snapshot_response ''data'' of Inl e \<Rightarrow> Inl e | Inr data_b \<Rightarrow>
     (case subscript data_b ''b'' of Inl e \<Rightarrow> Inl e | Inr bids \<Rightarrow>
     (case subscript snapshot_response ''data'' of Inl e \<Rightarrow> Inl e | Inr data_a \<Rightarrow>
     (case subscript data_a ''a'' of Inl e \<Rightarrow> Inl e | Inr asks \<Rightarrow>
        Inr \<lparr>msg_type = SNAPSHOT,
             content =
               [(''trading_pair'', PyJson (JStr trading_pair)),
                (''update_id'', PyJson (JFloat now)),
                (''bids'', PyJson bids),
                (''asks'', PyJson asks)],
             timestamp = now\<rparr>))))"

text \<open>
  \<^verbatim>\<open>_order_book_snapshot\<close>: the response is awaited from
  \<^verbatim>\<open>self._request_order_book_snapshot\<close>, whose exception is the call's exception, and
  the message is built from it.
\<close>

definition order_book_snapshot ::
  "'f connector \<Rightarrow> (string \<Rightarrow> string \<Rightarrow> error + 'f json) \<Rightarrow> 'f \<Rightarrow> string
     \<Rightarrow> error + 'f OrderBookMessage" where
  "order_book_snapshot c execute_request now trading_pair =
     (case request_order_book_snapshot c execute_request trading_pair of
        Inl e \<Rightarrow> Inl e
      | Inr snapshot_response \<Rightarrow> order_book_snapshot_message trading_pair now snapshot_response)"

section \<open>Subscription manager\<close>

text \<open>
  The loop of \<^verbatim>\<open>_subscribe_channels\<close> with its accumulator \<^verbatim>\<open>channels\<close>: per trading
  pair the venue symbol is resolved, and the channel id is read from
  \<^verbatim>\<open>_symbol_to_id_map\<close> once for each of the two names.
\<close>

fun subscribe_channel_names ::
  "'f runtime \<Rightarrow> 'f connector \<Rightarrow> string list \<Rightarrow> string list \<Rightarrow> error + string list" where
  "subscribe_channel_names L c [] channels = Inr channels"
| "subscribe_channel_names L c (trading_pair # rest) channels =
     (case exchange_symbol_associated_to_pair c trading_pair of
        Inl e \<Rightarrow> Inl e | Inr trading_symbol \<Rightarrow>
     (case dict_item (symbol_to_id_map c) trading_symbol of
        Inl e \<Rightarrow> Inl e | Inr id_depth \<Rightarrow>
     (case dict_item (symbol_to_id_map c) trading_symbol of
        Inl e \<Rightarrow> Inl e | Inr id_trade \<Rightarrow>
        subscribe_channel_names L c rest
          (channels @
             [py_str L id_depth @ ''@'' @ DIFF_EVENT_TYPE @ ''@50'',
              py_str L id_trade @ ''@'' @ TRADE_EVENT_TYPE]))))"

text \<open>
  \<^verbatim>\<open>_subscribe_channels\<close>. The websocket is the list of payloads sent on it so far; an
  exception raised while the channel list is built is logged and raised again, and
  nothing is sent.
\<close>

definition subscribe_channels ::
  "'f runtime \<Rightarrow> 'f connector \<Rightarrow> string list \<Rightarrow> 'f json list \<Rightarrow> 'f json list \<times> error option" where
  "subscribe_channels L c trading_pairs ws =
     (case subscribe_channel_names L c trading_pairs [] of
        Inl e \<Rightarrow> (ws, Some e)
      | Inr channels \<Rightarrow>
          (ws @ [JObj [(''op'', JStr ''SUB''),
                       (''channel'', JArr (map JStr channels)),
                       (''id'', JInt 1)]],
           None))"

text \<open>\<^verbatim>\<open>_process_message_for_unknown_channel\<close>; \<^verbatim>\<open>1e3\<close> is the float of 1000.\<close>

definition process_message_for_unknown_channel ::
  "'f runtime \<Rightarrow> 'f \<Rightarrow> 'f dict \<Rightarrow> 'f json list \<Rightarrow> 'f json list" where
  "process_message_for_unknown_channel L now event_message websocket_assistant =
     (let pong_payloads =
            JObj [(''op'', JStr ''pong''),
                  (''epochMillis'', JFloat (float_mul L now (float_of_int L 1000)))]
      in websocket_assistant @ [pong_payloads])"

section \<open>Request signer (coinstore\_auth.py)\<close>

text \<open>
  \<^verbatim>\<open>urllib.parse.urlencode\<close> of a dictionary: every key and every value (through
  \<^verbatim>\<open>str\<close>) is quoted with \<^verbatim>\<open>quote_plus\<close>, the pairs are written
  \<^verbatim>\<open>key=value\<close> in the dictionary's order and joined with \<^verbatim>\<open>&\<close>. \<^verbatim>\<open>quote_plus\<close>
  keeps letters, digits and \<^verbatim>\<open>_.-~\<close>, writes a space as \<^verbatim>\<open>+\<close> and every other byte
  as \<^verbatim>\<open>%XX\<close> with upper-case hexadecimal digits.
\<close>

definition always_safe :: "char \<Rightarrow> bool" where
  "always_safe c =
     (c \<in> set ''ABCDEFGHIJKLMNOPQRSTUVWXYZabcdefghijklmnopqrstuvwxyz0123456789_.-~'')"

definition hex_upper :: "nat \<Rightarrow> char" where
  "hex_upper n = ''0123456789ABCDEF'' ! n"

definition quote_byte :: "char \<Rightarrow> string" where
  "quote_byte c =
     (if always_safe c then [c]
      else if c = CHR '' '' then ''+''
      else [CHR ''%'', hex_upper (of_char c div 16), hex_upper (of_char c mod 16)])"

definition quote_plus :: "string \<Rightarrow> string" where
  "quote_plus s = concat (map quote_byte s)"

fun join_amp :: "string list \<Rightarrow> string" where
  "join_amp [] = []"
| "join_amp [x] = x"
| "join_amp (x # y # ys) = x @ ''&'' @ join_amp (y # ys)"

definition urlencode :: "'f runtime \<Rightarrow> 'f dict \<Rightarrow> string" where
  "urlencode L query =
     join_amp (map (\<lambda>kv. quote_plus (fst kv) @ ''='' @ quote_plus (py_str L (snd kv))) query)"

text \<open>\<^verbatim>\<open>hexdigest()\<close>: two lower-case hexadecimal digits per byte of the digest.\<close>

definition hex_lower :: "nat \<Rightarrow> char" where
  "hex_lower n = ''0123456789abcdef'' ! n"

definition hexdigest :: "8 word list \<Rightarrow> string" where
  "hexdigest bs = concat (map (\<lambda>b. [hex_lower (unat b div 16), hex_lower (unat b mod 16)]) bs)"

text \<open>
  The signer object: its two keys, and what \<^verbatim>\<open>self.time_provider.time()\<close> returns when
  it is asked.
\<close>

record 'f CoinstoreAuth =
  api_key :: string
  secret_key :: string
  time_provider_time :: 'f

text \<open>\<^verbatim>\<open>_generate_signature\<close>\<close>

definition generate_signature :: "'f runtime \<Rightarrow> 'f CoinstoreAuth \<Rightarrow> 'f dict \<Rightarrow> string" where
  "generate_signature L auth params =
     (let encoded_params_str = urlencode L params
      in hexdigest (hmac_sha256 L (secret_key auth) encoded_params_str))"

text \<open>
  \<^verbatim>\<open>add_auth_to_params\<close>. \<open>params\<close> is \<open>None\<close> for \<^verbatim>\<open>None\<close>; \<^verbatim>\<open>params or {}\<close> is then
  the empty dictionary. \<^verbatim>\<open>int(...)\<close> raises on a time that is not finite.
\<close>

definition add_auth_to_params ::
  "'f runtime \<Rightarrow> 'f CoinstoreAuth \<Rightarrow> 'f dict option \<Rightarrow> error + 'f dict" where
  "add_auth_to_params L auth params =
     (case int_of_float L (float_mul L (time_provider_time auth) (float_of_int L 1000)) of
        Inl e \<Rightarrow> Inl e
      | Inr timestamp_ms \<Rightarrow>
          (let request_params = (case params of None \<Rightarrow> [] | Some d \<Rightarrow> d);
               request_params = dict_set request_params ''timestamp'' (JInt timestamp_ms);
               signature = generate_signature L auth request_params;
               request_params = dict_set request_params ''signature'' (JStr signature)
           in Inr request_params))"

section \<open>Registry population (coinstore\_exchange.py)\<close>

text \<open>\<^verbatim>\<open>s.split(sep)\<close> for a non-empty separator; \<open>acc\<close> is the current piece, reversed.\<close>

function str_split :: "string \<Rightarrow> string \<Rightarrow> string \<Rightarrow> string list" where
  "str_split sep acc s =
     (if s = [] then [rev acc]
      else if sep \<noteq> [] \<and> prefix sep s then rev acc # str_split sep [] (drop (length sep) s)
      else str_split sep (hd s # acc) (tl s))"
  by pat_completeness auto
termination
  by (relation "measure (\<lambda>(sep, acc, s). length s)") auto

declare str_split.simps [simp del]

text \<open>\<^verbatim>\<open>err_code != 0\<close>: a boolean compares as an integer, a non-number is never 0.\<close>

definition ne_zero :: "'f runtime \<Rightarrow> 'f json \<Rightarrow> bool" where
  "ne_zero L v =
     (case v of
        JInt n \<Rightarrow> n \<noteq> 0
      | JBool b \<Rightarrow> b
      | JFloat x \<Rightarrow> \<not> float_eq_int L x 0
      | _ \<Rightarrow> True)"

text \<open>
  \<^verbatim>\<open>mapping[key] = val\<close> on a \<^verbatim>\<open>bidict\<close> (a library outside the source): a value
  already held by another key raises \<^verbatim>\<open>ValueDuplicationError\<close>; otherwise the key is
  set as in a dictionary.
\<close>

definition bidict_put ::
  "(string \<times> string) list \<Rightarrow> string \<Rightarrow> string \<Rightarrow> error + (string \<times> string) list" where
  "bidict_put m k v =
     (if list_ex (\<lambda>kv. fst kv \<noteq> k \<and> snd kv = v) m then Inl ValueDuplicationError
      else Inr (dict_set m k v))"

text \<open>
  One pass of the loop body of \<^verbatim>\<open>_initialize_trading_pair_symbols_from_exchange_info\<close>
  on \<open>symbol_data\<close>, from the local \<^verbatim>\<open>mapping\<close> and the connector's
  \<^verbatim>\<open>_symbol_to_id_map\<close> to their new values, or to the exception raised. The right-hand
  side \<^verbatim>\<open>symbol_data["id"]\<close> is evaluated before \<^verbatim>\<open>_symbol_to_id_map\<close> is written.
\<close>

definition initialize_symbol ::
  "'f runtime \<Rightarrow> 'f json \<Rightarrow> (string \<times> string) list \<times> 'f dict
     \<Rightarrow> error + (string \<times> string) list \<times> 'f dict" where
  "initialize_symbol L symbol_data st =
     (case subscript symbol_data ''symbol'' of Inl e \<Rightarrow> Inl e | Inr exchange_symbol \<Rightarrow>
     (case exchange_symbol of
        JStr s \<Rightarrow>
          (if suffix ''USDT'' s then
             (case str_split ''USDT'' [] s of
                [base_asset, quote_asset] \<Rightarrow>
                  (case bidict_put (fst st) s
                          (combine_to_hb_trading_pair L (str_upper L base_asset) ''USDT'') of
                     Inl e \<Rightarrow> Inl e
                   | Inr mapping \<Rightarrow>
                       (case subscript symbol_data ''id'' of
                          Inl e \<Rightarrow> Inl e
                        | Inr cid \<Rightarrow> Inr (mapping, dict_set (snd st) s cid)))
              | _ \<Rightarrow> Inl ValueError)
           else Inr st)
      | _ \<Rightarrow> Inl AttributeError))"

text \<open>
  The loop over \<^verbatim>\<open>data_list\<close>. An exception ends it; what was written to
  \<^verbatim>\<open>_symbol_to_id_map\<close> before stays written, so the result carries the id map in
  both cases.
\<close>

fun initialize_symbols ::
  "'f runtime \<Rightarrow> 'f json list \<Rightarrow> (string \<times> string) list \<times> 'f dict
     \<Rightarrow> ((string \<times> string) list \<times> 'f dict) \<times> error option" where
  "initialize_symbols L [] st = (st, None)"
| "initialize_symbols L (symbol_data # rest) st =
     (case initialize_symbol L symbol_data st of
        Inl e \<Rightarrow> (st, Some e)
      | Inr st' \<Rightarrow> initialize_symbols L rest st')"

text \<open>
  \<^verbatim>\<open>_initialize_trading_pair_symbols_from_exchange_info\<close>. A response whose code is not
  0 is logged and the method returns. Otherwise the loop runs on a fresh \<^verbatim>\<open>bidict\<close>,
  and \<^verbatim>\<open>_set_trading_pair_symbol_map\<close> installs the mapping when the loop ends
  without an exception.

  Modelled from the spec: \<^verbatim>\<open>_set_trading_pair_symbol_map\<close> is a method of the
  connector's base class, which is not in the source; the spec's Registry is populated
  by "an explicit one-shot operation", modelled as the assignment of the symbol map.
\<close>

definition initialize_trading_pair_symbols_from_exchange_info ::
  "'f runtime \<Rightarrow> 'f connector \<Rightarrow> 'f dict \<Rightarrow> 'f connector \<times> error option" where
  "initialize_trading_pair_symbols_from_exchange_info L c exchange_info =
     (let err_code = dict_get exchange_info ''code'' in
      if ne_zero L err_code then (c, None)
      else
        (case py_iter (dict_get exchange_info ''data'') of
           Inl e \<Rightarrow> (c, Some e)
         | Inr data_list \<Rightarrow>
             (case initialize_symbols L data_list ([], symbol_to_id_map c) of
                ((mapping, ids), Some e) \<Rightarrow> (c\<lparr>symbol_to_id_map := ids\<rparr>, Some e)
              | ((mapping, ids), None) \<Rightarrow>
                  (c\<lparr>symbol_to_id_map := ids, trading_pair_symbol_map := Some mapping\<rparr>,
                   None))))"

text \<open>
  A runtime for evaluating the model on concrete inputs: floats are exact rationals,
  \<^verbatim>\<open>int\<close> truncates towards zero, \<^verbatim>\<open>Decimal\<close> reads digit strings and integral
  floats only (anything else is rejected or a NaN), \<^verbatim>\<open>upper\<close> is the identity (the
  examples are in upper case), and the digest stands in for HMAC-SHA256 with two bytes,
  the lengths of the key and of the message.
\<close>

definition example_runtime :: "rat runtime" where
  "example_runtime =
     \<lparr>float_of_int = rat_of_int,
      float_mul = (\<lambda>x y. x * y),
      float_truediv = (\<lambda>x y. x / y),
      int_truediv = (\<lambda>a b. Some (rat_of_int a / rat_of_int b)),
      int_of_float = (\<lambda>x. Inr (if 0 \<le> x then \<lfloor>x\<rfloor> else \<lceil>x\<rceil>)),
      float_eq_int = (\<lambda>x n. x = rat_of_int n),
      Decimal_of_str =
        (\<lambda>s. if s \<noteq> [] \<and> list_all is_digit s then Some (DFinite False (nat_of_digits s) 0)
             else None),
      Decimal_of_float =
        (\<lambda>x. if x = rat_of_int \<lfloor>x\<rfloor> then decimal_of_int \<lfloor>x\<rfloor> else DNaN False False 0),
      Decimal_of_list = (\<lambda>xs. Inl ValueError),
      str_other = (\<lambda>v. ''?''),
      str_upper = (\<lambda>s. s),
      combine_to_hb_trading_pair = (\<lambda>b q. b @ ''-'' @ q),
      hmac_sha256 = (\<lambda>k m. [of_nat (length k), of_nat (length m)])\<rparr>"

section \<open>What the specification asks of a trade record\<close>

text \<open>
  The record \<open>r\<close> is the normalization of the trade payload \<open>e\<close> in the specification's
  words: the side is mapped from \<^verbatim>\<open>takerSide\<close> to the buy/sell enumeration, amount (from
  \<^verbatim>\<open>volume\<close>) and price are the \<^verbatim>\<open>Decimal\<close> values of the payload's fields, and the
  timestamp is the payload's \<^verbatim>\<open>time\<close> divided by 1000.
\<close>

definition trade_record_of :: "'f runtime \<Rightarrow> 'f dict \<Rightarrow> 'f OrderBookMessage \<Rightarrow> bool" where
  "trade_record_of L e r =
     (msg_type r = TRADE
      \<and> map_of (content r) ''trade_id'' = Some (PyJson (dict_get e ''tradeId''))
      \<and> map_of (content r) ''trade_type'' =
          Some (PyTradeTypeFloat (if dict_get e ''takerSide'' = JStr ''BUY'' then BUY else SELL))
      \<and> (case Decimal L (dict_get e ''volume'') of
            Inl err \<Rightarrow> False
          | Inr amount \<Rightarrow> map_of (content r) ''amount'' = Some (PyDecimal amount))
      \<and> (case Decimal L (dict_get e ''price'') of
            Inl err \<Rightarrow> False
          | Inr price \<Rightarrow> map_of (content r) ''price'' = Some (PyDecimal price))
      \<and> truediv_1000 L (dict_get e ''time'') = Inr (timestamp r))"

section \<open>Example inputs\<close>

text \<open>A registry with two instruments, two trade payloads, and the records they give.\<close>

definition example_connector :: "rat connector" where
  "example_connector =
     \<lparr>trading_pair_symbol_map = Some [(''BTCUSDT'', ''BTC-USDT''), (''ETHUSDT'', ''ETH-USDT'')],
      symbol_to_id_map = [(''BTCUSDT'', JInt 4), (''ETHUSDT'', JInt 7)]\<rparr>"

definition example_trade_1 :: "rat dict" where
  "example_trade_1 =
     [(''tradeId'', JInt 12345), (''symbol'', JStr ''BTCUSDT''), (''takerSide'', JStr ''BUY''),
      (''volume'', JStr ''12''), (''price'', JInt 45000), (''time'', JInt 1609459200000)]"

definition example_trade_2 :: "rat dict" where
  "example_trade_2 =
     [(''tradeId'', JInt 12346), (''symbol'', JStr ''ETHUSDT''), (''takerSide'', JStr ''SELL''),
      (''volume'', JInt 3), (''price'', JStr ''3000''), (''time'', JInt 1609459201000)]"

definition example_record_1 :: "rat OrderBookMessage" where
  "example_record_1 =
     \<lparr>msg_type = TRADE,
      content =
        [(''trade_id'', PyJson (JInt 12345)),
         (''trading_pair'', PyJson (JStr ''BTC-USDT'')),
         (''trade_type'', PyTradeTypeFloat BUY),
         (''amount'', PyDecimal (DFinite False 12 0)),
         (''price'', PyDecimal (DFinite False 45000 0))],
      timestamp = 1609459200\<rparr>"

definition example_record_2 :: "rat OrderBookMessage" where
  "example_record_2 =
     \<lparr>msg_type = TRADE,
      content =
        [(''trade_id'', PyJson (JInt 12346)),
         (''trading_pair'', PyJson (JStr ''ETH-USDT'')),
         (''trade_type'', PyTradeTypeFloat SELL),
         (''amount'', PyDecimal (DFinite False 3 0)),
         (''price'', PyDecimal (DFinite False 3000 0))],
      timestamp = 1609459201\<rparr>"

text \<open>A batch frame, a frame with both shapes, and an incremental frame without a batch.\<close>

definition example_batch_frame :: "rat dict" where
  "example_batch_frame =
     [(''T'', JStr ''trade''), (''data'', JArr [JObj example_trade_1, JObj example_trade_2])]"

definition example_mixed_frame :: "rat dict" where
  "example_mixed_frame =
     (''T'', JStr ''trade'') # (''data'', JArr [JObj example_trade_1, JObj example_trade_2])
       # example_trade_1"

definition example_incremental_frame :: "rat dict" where
  "example_incremental_frame = (''T'', JStr ''trade'') # example_trade_1"

text \<open>
  Two signer objects with the same secret, different API keys, and clocks that read
  different times within the same millisecond; an exchange-info response with one USDT
  symbol and one other symbol, a response with an error code, and an empty registry.
\<close>

definition example_auth_1 :: "rat CoinstoreAuth" where
  "example_auth_1 = \<lparr>api_key = ''key-A'', secret_key = ''s3cret'', time_provider_time = 1700000000\<rparr>"

definition example_auth_2 :: "rat CoinstoreAuth" where
  "example_auth_2 =
     \<lparr>api_key = ''key-B'', secret_key = ''s3cret'', time_provider_time = 1700000000 + 1 / 10000\<rparr>"

definition example_exchange_info :: "rat dict" where
  "example_exchange_info =
     [(''code'', JInt 0),
      (''data'', JArr [JObj [(''symbol'', JStr ''BTCUSDT''), (''id'', JInt 4)],
                       JObj [(''symbol'', JStr ''ETHBTC''), (''id'', JInt 5)]])]"

definition example_exchange_error :: "rat dict" where
  "example_exchange_error =
     [(''code'', JInt 1001), (''message'', JStr ''busy''),
      (''data'', JArr [JObj [(''symbol'', JStr ''BTCUSDT''), (''id'', JInt 4)]])]"

definition empty_connector :: "rat connector" where
  "empty_connector = \<lparr>trading_pair_symbol_map = None, symbol_to_id_map = []\<rparr>"

section \<open>What the specification asks of a subscription\<close>

text \<open>
  The two channel names of an instrument in the specification's words,
  the channel id followed by \<^verbatim>\<open>@depth@\<close> and the depth level, and the channel id
  followed by \<^verbatim>\<open>@trade\<close>, for the channel id
  the registry holds for the instrument's venue symbol; the depth level is 50.
\<close>

definition channel_names_of :: "'f runtime \<Rightarrow> 'f connector \<Rightarrow> string \<Rightarrow> string list" where
  "channel_names_of L c trading_pair =
     (case exchange_symbol_associated_to_pair c trading_pair of
        Inl e \<Rightarrow> []
      | Inr symbol \<Rightarrow>
          (case map_of (symbol_to_id_map c) symbol of
             None \<Rightarrow> []
           | Some channel_id \<Rightarrow>
               [py_str L channel_id @ ''@depth@50'', py_str L channel_id @ ''@trade'']))"

text \<open>A diff frame, a frame for an unknown symbol, and a REST depth response.\<close>

definition example_diff_frame :: "rat dict" where
  "example_diff_frame =
     [(''T'', JStr ''depth''), (''symbol'', JStr ''BTCUSDT''),
      (''b'', JArr [JArr [JInt 45000, JInt 1]]), (''a'', JArr [JArr [JInt 45500, JInt 1]])]"

definition example_unknown_symbol_frame :: "rat dict" where
  "example_unknown_symbol_frame =
     [(''T'', JStr ''depth''), (''symbol'', JStr ''XRPBTC''),
      (''b'', JArr [JArr [JInt 45000, JInt 1]]), (''a'', JArr [JArr [JInt 45500, JInt 1]])]"

definition example_depth_response :: "rat json" where
  "example_depth_response =
     JObj [(''data'', JObj [(''b'', JArr [JArr [JInt 100, JFloat (1 / 10)]]),
                           (''a'', JArr [JArr [JInt 101, JFloat (1 / 10)]])])]"

section \<open>The signed string in the specification's words\<close>

text \<open>
  The string the specification says is signed: the URL-encoded parameters with the
  timestamp appended as the last parameter. It is compared with what
  \<open>add_auth_to_params\<close> hands to \<open>generate_signature\<close> below.
\<close>

definition signed_string_as_specified :: "'f runtime \<Rightarrow> 'f dict \<Rightarrow> int \<Rightarrow> string" where
  "signed_string_as_specified L params ts = urlencode L (params @ [(''timestamp'', JInt ts)])"

section \<open>The router's rule in the specification's words\<close>

text \<open>
  The classification rule as the specification orders it: trade first (the trade-type
  tag or a trade id), then diff, then unknown. It is compared with
  \<open>channel_originating_message\<close> below.
\<close>

definition router_rule_as_specified :: "'f dict \<Rightarrow> string" where
  "router_rule_as_specified frame =
     (if dict_get frame ''T'' = JStr TRADE_EVENT_TYPE \<or> dict_get frame ''tradeId'' \<noteq> JNull
      then TRADE_EVENT_TYPE
      else if dict_get frame ''T'' = JStr DIFF_EVENT_TYPE then DIFF_EVENT_TYPE
      else '''')"

section \<open>Auxiliary facts\<close>

lemma dict_item_Some: "map_of d k = Some v \<Longrightarrow> dict_item d k = Inr v"
  by (simp add: dict_item_def)

lemma dict_item_None: "map_of d k = None \<Longrightarrow> dict_item d k = Inl KeyError"
  by (simp add: dict_item_def)

lemma dict_item_Inr: "dict_item d k = Inr v \<Longrightarrow> map_of d k = Some v"
  by (simp add: dict_item_def split: option.splits)

lemma dict_get_Some: "map_of d k = Some v \<Longrightarrow> dict_get d k = v"
  by (simp add: dict_get_def)

text \<open>What a successful \<open>parse_message\<close> has read and built.\<close>

lemma parse_message_Inr:
  assumes "parse_message L c msg = Inr r"
  shows "\<exists>trade_id symbol trading_pair taker_side volume amount price price_dec time.
           map_of msg ''tradeId'' = Some trade_id
         \<and> map_of msg ''symbol'' = Some symbol
         \<and> trading_pair_associated_to_exchange_symbol c symbol = Inr trading_pair
         \<and> map_of msg ''takerSide'' = Some taker_side
         \<and> map_of msg ''volume'' = Some volume
         \<and> Decimal L volume = Inr amount
         \<and> map_of msg ''price'' = Some price
         \<and> Decimal L price = Inr price_dec
         \<and> map_of msg ''time'' = Some time
         \<and> truediv_1000 L time = Inr (timestamp r)
         \<and> msg_type r = TRADE
         \<and> content r =
               [(''trade_id'', PyJson trade_id),
                (''trading_pair'', PyJson (JStr trading_pair)),
                (''trade_type'', PyTradeTypeFloat (trade_type_of taker_side)),
                (''amount'', PyDecimal amount),
                (''price'', PyDecimal price_dec)]"
  using assms
  by (auto simp: parse_message_def dict_item_def split: option.splits sum.splits)

lemma parse_message_trade_record_of:
  assumes "parse_message L c msg = Inr r"
  shows "trade_record_of L msg r"
proof -
  from parse_message_Inr [OF assms] obtain trade_id trading_pair taker_side volume
      amount price price_dec time
    where f: "map_of msg ''tradeId'' = Some trade_id"
      "map_of msg ''takerSide'' = Some taker_side"
      "map_of msg ''volume'' = Some volume" "Decimal L volume = Inr amount"
      "map_of msg ''price'' = Some price" "Decimal L price = Inr price_dec"
      "map_of msg ''time'' = Some time" "truediv_1000 L time = Inr (timestamp r)"
      "msg_type r = TRADE"
      "content r =
               [(''trade_id'', PyJson trade_id),
                (''trading_pair'', PyJson (JStr trading_pair)),
                (''trade_type'', PyTradeTypeFloat (trade_type_of taker_side)),
                (''amount'', PyDecimal amount),
                (''price'', PyDecimal price_dec)]"
    by blast
  show ?thesis
    by (simp add: trade_record_of_def f dict_get_def trade_type_of_def)
qed

text \<open>The batch loop only appends, and appends only parsed payloads of the batch.\<close>

lemma parse_entries_appends:
  "parse_entries L c es q = (q', err) \<Longrightarrow>
     \<exists>new. q' = q @ new
         \<and> (\<forall>r \<in> set new. \<exists>e. JObj e \<in> set es \<and> parse_message L c e = Inr r)
         \<and> (err = None \<longrightarrow> length new = length es)"
proof (induction es arbitrary: q)
  case Nil
  then show ?case by simp
next
  case (Cons x es)
  show ?case
  proof (cases "kwargs x")
    case (Inl e)
    with Cons.prems show ?thesis by auto
  next
    case (Inr msg)
    then have x: "x = JObj msg"
      by (auto simp: kwargs_def split: json.splits)
    show ?thesis
    proof (cases "parse_message L c msg")
      case (Inl e)
      with Cons.prems Inr show ?thesis by auto
    next
      case r: (Inr r)
      with Cons.prems Inr have "parse_entries L c es (q @ [r]) = (q', err)"
        by simp
      from Cons.IH [OF this] obtain new where new: "q' = (q @ [r]) @ new"
        "\<forall>r \<in> set new. \<exists>e. JObj e \<in> set es \<and> parse_message L c e = Inr r"
        "err = None \<longrightarrow> length new = length es"
        by blast
      have "q' = q @ (r # new)"
        using new(1) by simp
      moreover have "\<forall>r' \<in> set (r # new). \<exists>e. JObj e \<in> set (x # es) \<and> parse_message L c e = Inr r'"
        using new(2) r x by auto
      moreover have "err = None \<longrightarrow> length (r # new) = length (x # es)"
        using new(3) by simp
      ultimately show ?thesis by blast
    qed
  qed
qed

lemma example_parse_1:
  "parse_message example_runtime example_connector example_trade_1 = Inr example_record_1"
  by (simp add: parse_message_def example_trade_1_def example_record_1_def dict_item_def
      example_connector_def trading_pair_associated_to_exchange_symbol_def
      Decimal_def decimal_of_int_def truediv_1000_def example_runtime_def
      is_digit_def nat_of_digits_def trade_type_of_def)

lemma example_parse_2:
  "parse_message example_runtime example_connector example_trade_2 = Inr example_record_2"
  by (simp add: parse_message_def example_trade_2_def example_record_2_def dict_item_def
      example_connector_def trading_pair_associated_to_exchange_symbol_def
      Decimal_def decimal_of_int_def truediv_1000_def example_runtime_def
      is_digit_def nat_of_digits_def trade_type_of_def)

section \<open>Classification of frames\<close>

text \<open>
  C1 (as amended). The router gives the diff-type tag priority: a frame whose \<^verbatim>\<open>T\<close> is
  the diff tag is classified as Diff; otherwise a frame whose \<^verbatim>\<open>T\<close> is the trade tag or
  that carries a trade id other than \<^verbatim>\<open>None\<close> is classified as Trade; every other
  frame is Unknown (the empty channel name).
\<close>

theorem channel_originating_message_priority:
  "channel_originating_message frame =
     (if dict_get frame ''T'' = JStr DIFF_EVENT_TYPE then DIFF_EVENT_TYPE
      else if dict_get frame ''T'' = JStr TRADE_EVENT_TYPE \<or> dict_get frame ''tradeId'' \<noteq> JNull
      then TRADE_EVENT_TYPE
      else '''')"
  by (simp add: channel_originating_message_def)

theorem channel_originating_message_priority_witness:
  "channel_originating_message [(''T'', JStr ''depth''), (''tradeId'', JInt 12345 :: rat json)] = ''depth''
   \<and> channel_originating_message [(''tradeId'', JInt 12345 :: rat json)] = ''trade''
   \<and> channel_originating_message [(''T'', JStr ''trade'' :: rat json)] = ''trade''
   \<and> channel_originating_message [(''op'', JStr ''ping'' :: rat json)] = ''''"
  using channel_originating_message_priority [of "[(''T'', JStr ''depth''), (''tradeId'', JInt 12345 :: rat json)]"]
    channel_originating_message_priority [of "[(''tradeId'', JInt 12345 :: rat json)]"]
    channel_originating_message_priority [of "[(''T'', JStr ''trade'' :: rat json)]"]
    channel_originating_message_priority [of "[(''op'', JStr ''ping'' :: rat json)]"]
  by (simp add: dict_get_def DIFF_EVENT_TYPE_def TRADE_EVENT_TYPE_def)

text \<open>
  C1 as stated fails: the frame \<^verbatim>\<open>{"T": "depth", "tradeId": 12345}\<close> carries a trade id
  and the diff-type tag; the specification's rule makes it a Trade, the router classifies
  it as Diff.
\<close>

theorem channel_originating_message_counterexample:
  "dict_get [(''T'', JStr ''depth''), (''tradeId'', JInt 12345 :: rat json)] ''tradeId'' = JInt 12345
   \<and> dict_get [(''T'', JStr ''depth''), (''tradeId'', JInt 12345 :: rat json)] ''T'' = JStr DIFF_EVENT_TYPE
   \<and> router_rule_as_specified [(''T'', JStr ''depth''), (''tradeId'', JInt 12345 :: rat json)] = TRADE_EVENT_TYPE
   \<and> channel_originating_message [(''T'', JStr ''depth''), (''tradeId'', JInt 12345 :: rat json)] = DIFF_EVENT_TYPE
   \<and> DIFF_EVENT_TYPE \<noteq> TRADE_EVENT_TYPE"
  by (simp add: channel_originating_message_def router_rule_as_specified_def dict_get_def
      DIFF_EVENT_TYPE_def TRADE_EVENT_TYPE_def)

section \<open>Trade normalizer\<close>

text \<open>
  C4 (as amended). For every trade frame that carries no top-level trade id and whose
  data array holds two trade entries, each of which the normalizer can parse, the trade
  normalizer enqueues exactly two Trade records on the output queue, in the entries'
  order and after what the queue held; in each record the side is mapped from the
  entry's \<^verbatim>\<open>takerSide\<close>, amount (from \<^verbatim>\<open>volume\<close>) and price are the entry's fields as
  \<^verbatim>\<open>Decimal\<close> values, and the timestamp is the entry's \<^verbatim>\<open>time\<close> divided by 1000.
\<close>

theorem parse_trade_message_batch_of_two:
  assumes "map_of raw_message ''data'' = Some (JArr [JObj e1, JObj e2])"
    and "dict_get raw_message ''tradeId'' = JNull"
    and "parse_message L c e1 = Inr r1"
    and "parse_message L c e2 = Inr r2"
  shows "parse_trade_message L c raw_message q = (q @ [r1, r2], None)
         \<and> trade_record_of L e1 r1 \<and> trade_record_of L e2 r2"
proof -
  have "parse_entries L c [JObj e1, JObj e2] q = (q @ [r1, r2], None)"
    using assms(3,4) by (simp add: kwargs_def)
  then have "parse_trade_message L c raw_message q = (q @ [r1, r2], None)"
    using assms(1,2) by (simp add: parse_trade_message_def dict_item_def py_iter_def)
  then show ?thesis
    using assms(3,4) by (simp add: parse_message_trade_record_of)
qed

theorem parse_trade_message_batch_of_two_witness:
  "parse_trade_message example_runtime example_connector example_batch_frame [] =
     ([example_record_1, example_record_2], None)
   \<and> trade_record_of example_runtime example_trade_1 example_record_1
   \<and> trade_record_of example_runtime example_trade_2 example_record_2"
proof -
  have d: "map_of example_batch_frame ''data'' = Some (JArr [JObj example_trade_1, JObj example_trade_2])"
    by (simp add: example_batch_frame_def)
  have t: "dict_get example_batch_frame ''tradeId'' = JNull"
    by (simp add: example_batch_frame_def dict_get_def)
  show ?thesis
    using parse_trade_message_batch_of_two [OF d t example_parse_1 example_parse_2, of "[]"]
    by simp
qed

text \<open>
  C4 as stated fails: a trade frame whose data array holds the two example entries and
  that also carries a top-level trade payload puts three records on the queue, not two.
\<close>

theorem parse_trade_message_batch_of_two_counterexample:
  "map_of example_mixed_frame ''data'' = Some (JArr [JObj example_trade_1, JObj example_trade_2])
   \<and> parse_trade_message example_runtime example_connector example_mixed_frame [] =
       ([example_record_1, example_record_2, example_record_1], None)
   \<and> length (fst (parse_trade_message example_runtime example_connector example_mixed_frame [])) = 3"
proof -
  have d: "map_of example_mixed_frame ''data'' = Some (JArr [JObj example_trade_1, JObj example_trade_2])"
    by (simp add: example_mixed_frame_def)
  have t: "dict_get example_mixed_frame ''tradeId'' = JInt 12345"
    by (simp add: example_mixed_frame_def example_trade_1_def dict_get_def)
  have m: "parse_message example_runtime example_connector example_mixed_frame = Inr example_record_1"
    by (simp add: parse_message_def example_mixed_frame_def example_trade_1_def
        example_record_1_def dict_item_def example_connector_def
        trading_pair_associated_to_exchange_symbol_def Decimal_def decimal_of_int_def
        truediv_1000_def example_runtime_def is_digit_def nat_of_digits_def trade_type_of_def)
  have "parse_trade_message example_runtime example_connector example_mixed_frame [] =
       ([example_record_1, example_record_2, example_record_1], None)"
    using d t m example_parse_1 example_parse_2
    by (simp add: parse_trade_message_def dict_item_def py_iter_def kwargs_def)
  then show ?thesis
    using d by simp
qed

text \<open>
  C5, at the failing input: an incremental trade frame, a single trade payload at the top
  level and no data array. The router classifies it as Trade and the payload by itself is
  one the normalizer can parse, but \<^verbatim>\<open>raw_message["data"]\<close> raises \<^verbatim>\<open>KeyError\<close> before
  the incremental update is looked at: no record is put on the queue.
\<close>

theorem parse_trade_message_incremental_only:
  "channel_originating_message example_incremental_frame = TRADE_EVENT_TYPE
   \<and> dict_get example_incremental_frame ''tradeId'' = JInt 12345
   \<and> parse_message example_runtime example_connector example_incremental_frame = Inr example_record_1
   \<and> parse_trade_message example_runtime example_connector example_incremental_frame [] =
       ([], Some KeyError)"
proof -
  have "channel_originating_message example_incremental_frame = TRADE_EVENT_TYPE"
    by (simp add: channel_originating_message_def example_incremental_frame_def dict_get_def
        TRADE_EVENT_TYPE_def DIFF_EVENT_TYPE_def)
  moreover have "dict_get example_incremental_frame ''tradeId'' = JInt 12345"
    by (simp add: example_incremental_frame_def example_trade_1_def dict_get_def)
  moreover have "parse_message example_runtime example_connector example_incremental_frame = Inr example_record_1"
    by (simp add: parse_message_def example_incremental_frame_def example_trade_1_def
        example_record_1_def dict_item_def example_connector_def
        trading_pair_associated_to_exchange_symbol_def Decimal_def decimal_of_int_def
        truediv_1000_def example_runtime_def is_digit_def nat_of_digits_def trade_type_of_def)
  moreover have "parse_trade_message example_runtime example_connector example_incremental_frame [] =
       ([], Some KeyError)"
    by (simp add: parse_trade_message_def example_incremental_frame_def example_trade_1_def
        dict_item_def)
  ultimately show ?thesis by simp
qed

text \<open>
  What the normalizer does with the incremental payload when a data array is present:
  the payload's record follows the records of the batch.
\<close>

lemma parse_trade_message_incremental_after_batch:
  assumes "map_of raw_message ''data'' = Some data"
    and "py_iter data = Inr entries"
    and "parse_entries L c entries q = (q', None)"
    and "dict_get raw_message ''tradeId'' \<noteq> JNull"
    and "parse_message L c raw_message = Inr r"
  shows "parse_trade_message L c raw_message q = (q' @ [r], None)"
  using assms by (simp add: parse_trade_message_def dict_item_def)

lemma parse_trade_message_without_data:
  assumes "map_of raw_message ''data'' = None"
  shows "parse_trade_message L c raw_message q = (q, Some KeyError)"
  using assms by (simp add: parse_trade_message_def dict_item_def)

text \<open>
  C9. Every Trade record the trade normalizer puts on the queue, whether or not the
  call ends with an exception, comes from a payload of the frame (an element of the data
  array or the frame itself), and its \<^verbatim>\<open>amount\<close> and \<^verbatim>\<open>price\<close> entries are
  \<^verbatim>\<open>Decimal\<close> values: the \<^verbatim>\<open>Decimal\<close> constructor's results on the payload's
  \<^verbatim>\<open>volume\<close> and \<^verbatim>\<open>price\<close> fields, never floats.
\<close>

theorem parse_trade_message_decimal_fields:
  assumes "parse_trade_message L c raw_message q = (q', err)"
  shows "\<exists>new. q' = q @ new
           \<and> (\<forall>r \<in> set new.
                 \<exists>e volume price amount price_dec.
                     (e = raw_message
                        \<or> (\<exists>entries. py_iter (dict_get raw_message ''data'') = Inr entries
                                     \<and> JObj e \<in> set entries))
                   \<and> parse_message L c e = Inr r
                   \<and> map_of e ''volume'' = Some volume \<and> Decimal L volume = Inr amount
                   \<and> map_of e ''price'' = Some price \<and> Decimal L price = Inr price_dec
                   \<and> map_of (content r) ''amount'' = Some (PyDecimal amount)
                   \<and> map_of (content r) ''price'' = Some (PyDecimal price_dec))"
proof -
  let ?from = "\<lambda>e. e = raw_message
                 \<or> (\<exists>entries. py_iter (dict_get raw_message ''data'') = Inr entries
                              \<and> JObj e \<in> set entries)"
  have fields: "\<exists>e volume price amount price_dec.
                     ?from e
                   \<and> parse_message L c e = Inr r
                   \<and> map_of e ''volume'' = Some volume \<and> Decimal L volume = Inr amount
                   \<and> map_of e ''price'' = Some price \<and> Decimal L price = Inr price_dec
                   \<and> map_of (content r) ''amount'' = Some (PyDecimal amount)
                   \<and> map_of (content r) ''price'' = Some (PyDecimal price_dec)"
    if "?from e" "parse_message L c e = Inr r" for e r
    using parse_message_Inr [OF that(2)] that by fastforce
  have "\<exists>new. q' = q @ new \<and> (\<forall>r \<in> set new. \<exists>e. ?from e \<and> parse_message L c e = Inr r)"
  proof (cases "map_of raw_message ''data''")
    case None
    with assms show ?thesis
      by (simp add: parse_trade_message_def dict_item_def)
  next
    case (Some data)
    then have g: "dict_get raw_message ''data'' = data"
      by (simp add: dict_get_def)
    show ?thesis
    proof (cases "py_iter data")
      case (Inl e)
      with assms Some show ?thesis
        by (simp add: parse_trade_message_def dict_item_def)
    next
      case (Inr entries)
      obtain q1 err1 where pe: "parse_entries L c entries q = (q1, err1)"
        by (cases "parse_entries L c entries q")
      from parse_entries_appends [OF pe] obtain new1 where new1: "q1 = q @ new1"
        "\<forall>r \<in> set new1. \<exists>e. JObj e \<in> set entries \<and> parse_message L c e = Inr r"
        by blast
      have batch: "\<forall>r \<in> set new1. \<exists>e. ?from e \<and> parse_message L c e = Inr r"
        using new1(2) Inr g by auto
      show ?thesis
      proof (cases "err1 = None \<and> dict_get raw_message ''tradeId'' \<noteq> JNull")
        case False
        with assms Some Inr pe have "q' = q1"
          by (auto simp: parse_trade_message_def dict_item_def split: option.splits)
        with new1(1) batch show ?thesis by blast
      next
        case True
        show ?thesis
        proof (cases "parse_message L c raw_message")
          case (Inl e)
          with assms Some Inr pe True have "q' = q1"
            by (auto simp: parse_trade_message_def dict_item_def)
          with new1(1) batch show ?thesis by blast
        next
          case r: (Inr r)
          with assms Some Inr pe True have "q' = q1 @ [r]"
            by (auto simp: parse_trade_message_def dict_item_def)
          then have "q' = q @ (new1 @ [r])"
            using new1(1) by simp
          moreover have "\<forall>r' \<in> set (new1 @ [r]). \<exists>e. ?from e \<and> parse_message L c e = Inr r'"
            using batch r by auto
          ultimately show ?thesis by blast
        qed
      qed
    qed
  qed
  then obtain new where new: "q' = q @ new"
    "\<forall>r \<in> set new. \<exists>e. ?from e \<and> parse_message L c e = Inr r"
    by blast
  have "\<forall>r \<in> set new.
                 \<exists>e volume price amount price_dec.
                     ?from e
                   \<and> parse_message L c e = Inr r
                   \<and> map_of e ''volume'' = Some volume \<and> Decimal L volume = Inr amount
                   \<and> map_of e ''price'' = Some price \<and> Decimal L price = Inr price_dec
                   \<and> map_of (content r) ''amount'' = Some (PyDecimal amount)
                   \<and> map_of (content r) ''price'' = Some (PyDecimal price_dec)"
    using new(2) fields by blast
  with new(1) show ?thesis by blast
qed

theorem parse_trade_message_decimal_fields_witness:
  "parse_trade_message example_runtime example_connector example_batch_frame [] =
     ([example_record_1, example_record_2], None)
   \<and> (\<exists>new. [example_record_1, example_record_2] = [] @ new
         \<and> (\<forall>r \<in> set new.
               \<exists>e volume price amount price_dec.
                   (e = example_batch_frame
                      \<or> (\<exists>entries. py_iter (dict_get example_batch_frame ''data'') = Inr entries
                                   \<and> JObj e \<in> set entries))
                 \<and> parse_message example_runtime example_connector e = Inr r
                 \<and> map_of e ''volume'' = Some volume \<and> Decimal example_runtime volume = Inr amount
                 \<and> map_of e ''price'' = Some price \<and> Decimal example_runtime price = Inr price_dec
                 \<and> map_of (content r) ''amount'' = Some (PyDecimal amount)
                 \<and> map_of (content r) ''price'' = Some (PyDecimal price_dec)))
   \<and> map_of (content example_record_1) ''amount'' = Some (PyDecimal (DFinite False 12 0))
   \<and> map_of (content example_record_2) ''price'' = Some (PyDecimal (DFinite False 3000 0))"
proof -
  have run: "parse_trade_message example_runtime example_connector example_batch_frame [] =
     ([example_record_1, example_record_2], None)"
    using example_parse_1 example_parse_2
    by (simp add: parse_trade_message_def example_batch_frame_def dict_item_def py_iter_def
        kwargs_def dict_get_def)
  show ?thesis
    using run parse_trade_message_decimal_fields [OF run]
    by (simp add: example_record_1_def example_record_2_def)
qed

section \<open>Diff normalizer\<close>

text \<open>
  C7. For every diff frame carrying a venue symbol, with any output queue: if the
  registry resolves the symbol, the diff normalizer appends exactly one Diff record to
  the queue, whose bid and ask levels are the frame's \<^verbatim>\<open>b\<close> and \<^verbatim>\<open>a\<close> arrays (and
  raises \<^verbatim>\<open>KeyError\<close>, leaving the queue as it was, when one of the arrays is
  missing); if the registry does not resolve the symbol, the resolution error is raised
  and the queue is unchanged. No other outcome exists: a frame is normalized whole or
  dropped whole.
\<close>

theorem parse_order_book_diff_message_whole_or_dropped:
  assumes "map_of raw_message ''symbol'' = Some symbol"
  shows
    "(case trading_pair_associated_to_exchange_symbol c symbol of
        Inr trading_pair \<Rightarrow>
          (case (map_of raw_message ''b'', map_of raw_message ''a'') of
             (Some bids, Some asks) \<Rightarrow>
               parse_order_book_diff_message c now raw_message q =
                 (q @ [\<lparr>msg_type = DIFF,
                         content =
                           [(''trading_pair'', PyJson (JStr trading_pair)),
                            (''update_id'', PyJson (JFloat now)),
                            (''bids'', PyJson bids),
                            (''asks'', PyJson asks)],
                         timestamp = now\<rparr>],
                  None)
           | _ \<Rightarrow> parse_order_book_diff_message c now raw_message q = (q, Some KeyError))
      | Inl e \<Rightarrow> parse_order_book_diff_message c now raw_message q = (q, Some e))"
  using assms
  by (simp add: parse_order_book_diff_message_def dict_item_def
      split: sum.splits option.splits)

theorem parse_order_book_diff_message_whole_or_dropped_witness:
  "parse_order_book_diff_message example_connector 1700000000 example_diff_frame [] =
     ([\<lparr>msg_type = DIFF,
        content =
          [(''trading_pair'', PyJson (JStr ''BTC-USDT'')),
           (''update_id'', PyJson (JFloat 1700000000)),
           (''bids'', PyJson (JArr [JArr [JInt 45000, JInt 1]])),
           (''asks'', PyJson (JArr [JArr [JInt 45500, JInt 1]]))],
        timestamp = 1700000000\<rparr>],
      None)
   \<and> parse_order_book_diff_message example_connector 1700000000 example_unknown_symbol_frame [] =
       ([], Some UnknownSymbol)"
proof -
  have s1: "map_of example_diff_frame ''symbol'' = Some (JStr ''BTCUSDT'')"
    by (simp add: example_diff_frame_def)
  have s2: "map_of example_unknown_symbol_frame ''symbol'' = Some (JStr ''XRPBTC'')"
    by (simp add: example_unknown_symbol_frame_def)
  have r1: "trading_pair_associated_to_exchange_symbol example_connector (JStr ''BTCUSDT'')
            = Inr ''BTC-USDT''"
    by (simp add: trading_pair_associated_to_exchange_symbol_def example_connector_def)
  have r2: "trading_pair_associated_to_exchange_symbol example_connector (JStr ''XRPBTC'')
            = Inl UnknownSymbol"
    by (simp add: trading_pair_associated_to_exchange_symbol_def example_connector_def)
  have b: "map_of example_diff_frame ''b'' = Some (JArr [JArr [JInt 45000, JInt 1]])"
    "map_of example_diff_frame ''a'' = Some (JArr [JArr [JInt 45500, JInt 1]])"
    by (simp_all add: example_diff_frame_def)
  show ?thesis
    using parse_order_book_diff_message_whole_or_dropped
            [OF s1, of example_connector 1700000000 "[]"]
          parse_order_book_diff_message_whole_or_dropped
            [OF s2, of example_connector 1700000000 "[]"]
    by (simp add: r1 r2 b)
qed

section \<open>Snapshot normalizer\<close>

text \<open>
  The request step never delivers a response: the depth path holds the named field
  \<^verbatim>\<open>{symbol}\<close> and \<^verbatim>\<open>format\<close> is given the symbol as a positional argument, so
  building the URL raises \<^verbatim>\<open>KeyError\<close> whenever the symbol resolves, before the
  transport is asked.
\<close>

lemma depth_url_format_raises:
  "str_format (public_rest_url ORDERBOOK_DEPTH_PATH) [symbol] 0 = Inl KeyError"
  by (simp add: public_rest_url_def REST_URL_def ORDERBOOK_DEPTH_PATH_def str_format.simps
      is_digit_def)

lemma request_order_book_snapshot_raises:
  "\<exists>e. request_order_book_snapshot c execute_request trading_pair = Inl e"
  by (simp add: request_order_book_snapshot_def depth_url_format_raises split: sum.splits)

lemma order_book_snapshot_raises:
  "\<exists>e. order_book_snapshot c execute_request now trading_pair = Inl e"
proof -
  obtain e where "request_order_book_snapshot c execute_request trading_pair = Inl e"
    using request_order_book_snapshot_raises by blast
  then show ?thesis
    by (simp add: order_book_snapshot_def)
qed

text \<open>
  What the statements after the request would build from a response: the bid and ask
  arrays of \<^verbatim>\<open>data\<close> pass through whatever they hold, with the requested trading pair
  and the receipt time as update marker and timestamp.
\<close>

lemma order_book_snapshot_message_levels:
  assumes "map_of response ''data'' = Some (JObj data)"
    and "map_of data ''b'' = Some bids"
    and "map_of data ''a'' = Some asks"
  shows "order_book_snapshot_message trading_pair now (JObj response) =
           Inr \<lparr>msg_type = SNAPSHOT,
                content =
                  [(''trading_pair'', PyJson (JStr trading_pair)),
                   (''update_id'', PyJson (JFloat now)),
                   (''bids'', PyJson bids),
                   (''asks'', PyJson asks)],
                timestamp = now\<rparr>"
  using assms by (simp add: order_book_snapshot_message_def subscript_def dict_item_def)

text \<open>
  C6, at the failing input: the trading pair \<^verbatim>\<open>BTC-USDT\<close>, which the registry resolves
  to \<^verbatim>\<open>BTCUSDT\<close>, and a transport that answers every request with
  \<^verbatim>\<open>{"data":{"b":[[100,0.1]],"a":[[101,0.1]]}}\<close>. From that response the statements after
  the request would build the Snapshot the claim describes, with one bid level, one ask
  level, the trading pair and the receipt time; the snapshot normalizer raises
  \<^verbatim>\<open>KeyError\<close> instead, since the request raises while it builds the URL.
\<close>

theorem order_book_snapshot_never_answers:
  "exchange_symbol_associated_to_pair example_connector ''BTC-USDT'' = Inr ''BTCUSDT''
   \<and> order_book_snapshot_message ''BTC-USDT'' 1700000000 example_depth_response =
       Inr \<lparr>msg_type = SNAPSHOT,
            content =
              [(''trading_pair'', PyJson (JStr ''BTC-USDT'')),
               (''update_id'', PyJson (JFloat 1700000000)),
               (''bids'', PyJson (JArr [JArr [JInt 100, JFloat (1 / 10)]])),
               (''asks'', PyJson (JArr [JArr [JInt 101, JFloat (1 / 10)]]))],
            timestamp = 1700000000\<rparr>
   \<and> request_order_book_snapshot example_connector
         (\<lambda>url params. Inr example_depth_response) ''BTC-USDT'' = Inl KeyError
   \<and> order_book_snapshot example_connector
         (\<lambda>url params. Inr example_depth_response) 1700000000 ''BTC-USDT'' = Inl KeyError"
proof -
  have s: "exchange_symbol_associated_to_pair example_connector ''BTC-USDT'' = Inr ''BTCUSDT''"
    by (simp add: exchange_symbol_associated_to_pair_def example_connector_def)
  have m: "order_book_snapshot_message ''BTC-USDT'' 1700000000 example_depth_response =
       Inr \<lparr>msg_type = SNAPSHOT,
            content =
              [(''trading_pair'', PyJson (JStr ''BTC-USDT'')),
               (''update_id'', PyJson (JFloat 1700000000)),
               (''bids'', PyJson (JArr [JArr [JInt 100, JFloat (1 / 10)]])),
               (''asks'', PyJson (JArr [JArr [JInt 101, JFloat (1 / 10)]]))],
            timestamp = 1700000000\<rparr>"
    by (simp add: order_book_snapshot_message_def example_depth_response_def subscript_def
        dict_item_def)
  have r: "request_order_book_snapshot example_connector
         (\<lambda>url params. Inr example_depth_response) ''BTC-USDT'' = Inl KeyError"
    by (simp add: request_order_book_snapshot_def s depth_url_format_raises)
  then have "order_book_snapshot example_connector
         (\<lambda>url params. Inr example_depth_response) 1700000000 ''BTC-USDT'' = Inl KeyError"
    by (simp add: order_book_snapshot_def)
  with s m r show ?thesis by simp
qed

section \<open>Keepalive responder\<close>

text \<open>
  C3. For every frame, and so for every frame that matches neither the trade nor the
  diff classification, the unknown-channel handler sends exactly one frame after those
  already sent: a dictionary with exactly the two keys \<^verbatim>\<open>op\<close>, which is \<^verbatim>\<open>"pong"\<close>,
  and \<^verbatim>\<open>epochMillis\<close>, which is a float, the local time multiplied by \<^verbatim>\<open>1e3\<close>.
\<close>

theorem process_message_for_unknown_channel_pong:
  "\<exists>payload.
      process_message_for_unknown_channel L now event_message ws = ws @ [JObj payload]
    \<and> length (process_message_for_unknown_channel L now event_message ws) = length ws + 1
    \<and> map fst payload = [''op'', ''epochMillis'']
    \<and> dict_get payload ''op'' = JStr ''pong''
    \<and> dict_get payload ''epochMillis'' = JFloat (float_mul L now (float_of_int L 1000))"
  by (simp add: process_message_for_unknown_channel_def dict_get_def)

theorem process_message_for_unknown_channel_pong_witness:
  "channel_originating_message [(''op'', JStr ''ping'' :: rat json)] = ''''
   \<and> process_message_for_unknown_channel example_runtime 1700000000
        [(''op'', JStr ''ping'')] [] =
       [JObj [(''op'', JStr ''pong''), (''epochMillis'', JFloat 1700000000000)]]"
  using process_message_for_unknown_channel_pong
          [of example_runtime 1700000000 "[(''op'', JStr ''ping'')]" "[]"]
  by (simp add: process_message_for_unknown_channel_def channel_originating_message_def
      dict_get_def example_runtime_def TRADE_EVENT_TYPE_def DIFF_EVENT_TYPE_def)

section \<open>Subscription manager: the subscribe frame\<close>

lemma subscribe_channel_names_registered:
  assumes "\<forall>trading_pair \<in> set trading_pairs.
             \<exists>symbol channel_id.
                 exchange_symbol_associated_to_pair c trading_pair = Inr symbol
               \<and> map_of (symbol_to_id_map c) symbol = Some channel_id"
  shows "subscribe_channel_names L c trading_pairs channels =
           Inr (channels @ concat (map (channel_names_of L c) trading_pairs))"
  using assms
proof (induction trading_pairs arbitrary: channels)
  case Nil
  then show ?case by simp
next
  case (Cons trading_pair rest)
  then obtain symbol channel_id
    where e: "exchange_symbol_associated_to_pair c trading_pair = Inr symbol"
      "map_of (symbol_to_id_map c) symbol = Some channel_id"
    by auto
  have names: "channel_names_of L c trading_pair =
      [py_str L channel_id @ ''@depth@50'', py_str L channel_id @ ''@trade'']"
    by (simp add: channel_names_of_def e)
  have "subscribe_channel_names L c (trading_pair # rest) channels =
      subscribe_channel_names L c rest
        (channels @ [py_str L channel_id @ ''@depth@50'', py_str L channel_id @ ''@trade''])"
    by (simp add: e dict_item_def DIFF_EVENT_TYPE_def TRADE_EVENT_TYPE_def)
  also have "\<dots> = Inr ((channels @ [py_str L channel_id @ ''@depth@50'',
                                  py_str L channel_id @ ''@trade''])
                        @ concat (map (channel_names_of L c) rest))"
    using Cons.prems by (intro Cons.IH) simp
  finally show ?case
    by (simp add: names)
qed

lemma length_channel_names_registered:
  assumes "\<forall>trading_pair \<in> set trading_pairs.
             \<exists>symbol channel_id.
                 exchange_symbol_associated_to_pair c trading_pair = Inr symbol
               \<and> map_of (symbol_to_id_map c) symbol = Some channel_id"
  shows "length (concat (map (channel_names_of L c) trading_pairs)) = 2 * length trading_pairs"
  using assms
proof (induction trading_pairs)
  case Nil
  then show ?case by simp
next
  case (Cons trading_pair rest)
  then obtain symbol channel_id
    where e: "exchange_symbol_associated_to_pair c trading_pair = Inr symbol"
      "map_of (symbol_to_id_map c) symbol = Some channel_id"
    by auto
  have "length (channel_names_of L c trading_pair) = 2"
    by (simp add: channel_names_of_def e)
  with Cons show ?case by simp
qed

text \<open>
  C2. For every non-empty list of instruments, each with a registry entry (a venue
  symbol for the trading pair and a channel id for the symbol), subscribe sends exactly
  one frame after those already sent and raises nothing. The frame's payload has exactly
  the keys \<^verbatim>\<open>op\<close>, \<^verbatim>\<open>channel\<close> and \<^verbatim>\<open>id\<close>: \<^verbatim>\<open>op\<close> is \<^verbatim>\<open>"SUB"\<close>, the request id is
  1, and the channel array lists, instrument by instrument and in the instruments'
  order, the two names \<^verbatim>\<open>{channelId}@depth@50\<close> and \<^verbatim>\<open>{channelId}@trade\<close>; its length is
  twice the number of instruments.
\<close>

theorem subscribe_channels_sends_one_frame:
  assumes "trading_pairs \<noteq> []"
    and "\<forall>trading_pair \<in> set trading_pairs.
             \<exists>symbol channel_id.
                 exchange_symbol_associated_to_pair c trading_pair = Inr symbol
               \<and> map_of (symbol_to_id_map c) symbol = Some channel_id"
  shows "\<exists>channels.
            subscribe_channels L c trading_pairs ws =
              (ws @ [JObj [(''op'', JStr ''SUB''),
                           (''channel'', JArr (map JStr channels)),
                           (''id'', JInt 1)]],
               None)
          \<and> channels = concat (map (channel_names_of L c) trading_pairs)
          \<and> length channels = 2 * length trading_pairs"
  using subscribe_channel_names_registered [OF assms(2), of L "[]"]
    length_channel_names_registered [OF assms(2), of L]
  by (simp add: subscribe_channels_def)

theorem subscribe_channels_sends_one_frame_witness:
  "subscribe_channels example_runtime example_connector [''BTC-USDT'', ''ETH-USDT''] [] =
     ([JObj [(''op'', JStr ''SUB''),
             (''channel'',
              JArr [JStr ''4@depth@50'', JStr ''4@trade'', JStr ''7@depth@50'', JStr ''7@trade'']),
             (''id'', JInt 1)]],
      None)"
proof -
  have ne: "[''BTC-USDT'', ''ETH-USDT''] \<noteq> []"
    by simp
  have s1: "exchange_symbol_associated_to_pair example_connector ''BTC-USDT'' = Inr ''BTCUSDT''"
    by (simp add: exchange_symbol_associated_to_pair_def example_connector_def)
  have s2: "exchange_symbol_associated_to_pair example_connector ''ETH-USDT'' = Inr ''ETHUSDT''"
    by (simp add: exchange_symbol_associated_to_pair_def example_connector_def)
  have i1: "map_of (symbol_to_id_map example_connector) ''BTCUSDT'' = Some (JInt 4)"
    by (simp add: example_connector_def)
  have i2: "map_of (symbol_to_id_map example_connector) ''ETHUSDT'' = Some (JInt 7)"
    by (simp add: example_connector_def)
  have reg: "\<forall>trading_pair \<in> set [''BTC-USDT'', ''ETH-USDT''].
             \<exists>symbol channel_id.
                 exchange_symbol_associated_to_pair example_connector trading_pair = Inr symbol
               \<and> map_of (symbol_to_id_map example_connector) symbol = Some channel_id"
    using s1 s2 i1 i2 by simp
  have n4: "py_str example_runtime (JInt 4) = ''4''"
    by (simp add: py_str_def str_int_def str_nat.simps digit_char_def)
  have n7: "py_str example_runtime (JInt 7) = ''7''"
    by (simp add: py_str_def str_int_def str_nat.simps digit_char_def)
  have c1: "channel_names_of example_runtime example_connector ''BTC-USDT''
              = [''4@depth@50'', ''4@trade'']"
    by (simp add: channel_names_of_def s1 i1 n4)
  have c2: "channel_names_of example_runtime example_connector ''ETH-USDT''
              = [''7@depth@50'', ''7@trade'']"
    by (simp add: channel_names_of_def s2 i2 n7)
  show ?thesis
    using subscribe_channels_sends_one_frame [OF ne reg, of example_runtime "[]"]
    by (simp add: c1 c2)
qed

text \<open>An instrument without a registry entry aborts the call: nothing is sent.\<close>

lemma subscribe_channels_unresolved:
  assumes "subscribe_channel_names L c trading_pairs [] = Inl e"
  shows "subscribe_channels L c trading_pairs ws = (ws, Some e)"
  using assms by (simp add: subscribe_channels_def)

section \<open>Request signer\<close>

lemma dict_set_append:
  "k \<notin> fst ` set d \<Longrightarrow> dict_set d k v = d @ [(k, v)]"
  by (induction d) auto

lemma map_of_dict_set: "map_of (dict_set d k v) = (map_of d)(k \<mapsto> v)"
  by (induction d) (auto simp: fun_eq_iff)

lemma keys_dict_set: "fst ` set (dict_set d k v) = insert k (fst ` set d)"
  by (simp add: dom_map_of_conv_image_fst [symmetric] map_of_dict_set)

lemma join_amp_snoc:
  "join_amp (xs @ [x]) = (if xs = [] then x else join_amp xs @ ''&'' @ x)"
  by (induction xs rule: join_amp.induct) auto

lemma urlencode_snoc:
  "urlencode L (d @ [(k, v)]) =
     (if d = [] then quote_plus k @ ''='' @ quote_plus (py_str L v)
      else urlencode L d @ ''&'' @ quote_plus k @ ''='' @ quote_plus (py_str L v))"
  by (simp add: urlencode_def join_amp_snoc)

lemma hex_lower_in: "n < 16 \<Longrightarrow> hex_lower n \<in> set ''0123456789abcdef''"
  unfolding hex_lower_def by (rule nth_mem) simp

lemma hexdigest_lowercase: "set (hexdigest bs) \<subseteq> set ''0123456789abcdef''"
proof -
  have "hex_lower (unat b div 16) \<in> set ''0123456789abcdef''
      \<and> hex_lower (unat b mod 16) \<in> set ''0123456789abcdef''" for b :: "8 word"
  proof -
    have "unat b < 256"
      using unsigned_less [of b] by simp
    then have "unat b div 16 < 16" "unat b mod 16 < 16"
      by simp_all
    then show ?thesis
      using hex_lower_in by blast
  qed
  then show ?thesis
    unfolding hexdigest_def by (induction bs) auto
qed

lemma length_hexdigest: "length (hexdigest bs) = 2 * length bs"
  by (induction bs) (simp_all add: hexdigest_def)

lemma digit_char_safe: "n < 10 \<Longrightarrow> always_safe (digit_char n)"
proof -
  assume "n < 10"
  then have "''0123456789'' ! n \<in> set ''0123456789''"
    by (intro nth_mem) simp
  then show ?thesis
    unfolding digit_char_def always_safe_def by auto
qed

lemma str_nat_safe: "list_all always_safe (str_nat n)"
proof (induction n rule: str_nat.induct)
  case (1 n)
  show ?case
  proof (cases "n < 10")
    case True
    then show ?thesis
      by (simp add: str_nat.simps [of n] digit_char_safe)
  next
    case False
    then have "list_all always_safe (str_nat (n div 10))"
      by (rule "1.IH")
    moreover have "always_safe (digit_char (n mod 10))"
      by (simp add: digit_char_safe)
    ultimately show ?thesis
      using False by (simp add: str_nat.simps [of n])
  qed
qed

lemma quote_plus_safe: "list_all always_safe s \<Longrightarrow> quote_plus s = s"
  by (induction s) (simp_all add: quote_plus_def quote_byte_def)

lemma quote_plus_str_int: "quote_plus (str_int n) = str_int n"
proof -
  have "always_safe CHR ''-''"
    by (simp add: always_safe_def)
  then have "list_all always_safe (str_int n)"
    by (simp add: str_int_def str_nat_safe)
  then show ?thesis
    by (rule quote_plus_safe)
qed

lemma quote_plus_timestamp: "quote_plus ''timestamp'' = ''timestamp''"
  by (rule quote_plus_safe) (simp add: always_safe_def)

lemma keys_order_dict_set:
  "map fst (dict_set d k v) = (if k \<in> fst ` set d then map fst d else map fst d @ [k])"
  by (induction d) (force split: if_splits)+

text \<open>
  C8 (as amended). The signature depends on the parameter map, the timestamp and the
  secret key only: two signer objects with the same secret whose clocks give the same
  millisecond timestamp return, for the same parameter map, the same signed parameters,
  whatever their API keys and clock readings are. The signature is the hexadecimal
  digest, in lower-case digits, of HMAC-SHA256 under the secret key over the
  URL-encoded parameters in which the timestamp has been set under the key
  \<^verbatim>\<open>timestamp\<close>: every other parameter keeps its value and its position, a map without
  that key gets it as its last parameter (the signed string is then the one the
  specification describes), and a map that already has the key keeps the key where it
  is, with the new timestamp as its value.
\<close>

theorem add_auth_to_params_deterministic:
  assumes "secret_key auth1 = secret_key auth2"
    and "int_of_float L (float_mul L (time_provider_time auth1) (float_of_int L 1000)) = Inr ts"
    and "int_of_float L (float_mul L (time_provider_time auth2) (float_of_int L 1000)) = Inr ts"
  shows "add_auth_to_params L auth1 (Some params) = add_auth_to_params L auth2 (Some params)
       \<and> (\<exists>signed signature.
             add_auth_to_params L auth1 (Some params) = Inr signed
           \<and> map_of signed ''signature'' = Some (JStr signature)
           \<and> signature =
               hexdigest (hmac_sha256 L (secret_key auth1)
                            (urlencode L (dict_set params ''timestamp'' (JInt ts))))
           \<and> set signature \<subseteq> set ''0123456789abcdef''
           \<and> map_of (dict_set params ''timestamp'' (JInt ts)) =
               (map_of params)(''timestamp'' \<mapsto> JInt ts)
           \<and> map fst (dict_set params ''timestamp'' (JInt ts)) =
               (if ''timestamp'' \<in> fst ` set params then map fst params
                else map fst params @ [''timestamp''])
           \<and> (''timestamp'' \<notin> fst ` set params \<longrightarrow>
                 urlencode L (dict_set params ''timestamp'' (JInt ts)) =
                   signed_string_as_specified L params ts
               \<and> signed_string_as_specified L params ts =
                   (if params = [] then ''timestamp='' @ str_int ts
                    else urlencode L params @ ''&timestamp='' @ str_int ts)))"
proof -
  let ?p = "dict_set params ''timestamp'' (JInt ts)"
  let ?sig = "hexdigest (hmac_sha256 L (secret_key auth1) (urlencode L ?p))"
  have a1: "add_auth_to_params L auth1 (Some params) = Inr (dict_set ?p ''signature'' (JStr ?sig))"
    using assms(2) by (simp add: add_auth_to_params_def generate_signature_def Let_def)
  have a2: "add_auth_to_params L auth2 (Some params) = Inr (dict_set ?p ''signature'' (JStr ?sig))"
    using assms(1,3) by (simp add: add_auth_to_params_def generate_signature_def Let_def)
  have spec: "signed_string_as_specified L params ts =
                   (if params = [] then ''timestamp='' @ str_int ts
                    else urlencode L params @ ''&timestamp='' @ str_int ts)"
    by (simp add: signed_string_as_specified_def urlencode_snoc quote_plus_timestamp py_str_def
        quote_plus_str_int)
  have last: "urlencode L ?p = signed_string_as_specified L params ts"
    if "''timestamp'' \<notin> fst ` set params"
    using that by (simp add: dict_set_append signed_string_as_specified_def)
  have keys: "map fst ?p =
               (if ''timestamp'' \<in> fst ` set params then map fst params
                else map fst params @ [''timestamp''])"
    by (rule keys_order_dict_set)
  show ?thesis
    using a1 a2 last spec keys
      hexdigest_lowercase [of "hmac_sha256 L (secret_key auth1) (urlencode L ?p)"]
    by (simp add: map_of_dict_set)
qed

theorem add_auth_to_params_deterministic_witness:
  "add_auth_to_params example_runtime example_auth_1 (Some [(''symbol'', JStr ''BTC USDT'')]) =
     Inr [(''symbol'', JStr ''BTC USDT''), (''timestamp'', JInt 1700000000000),
          (''signature'', JStr ''0627'')]
   \<and> add_auth_to_params example_runtime example_auth_2 (Some [(''symbol'', JStr ''BTC USDT'')]) =
     Inr [(''symbol'', JStr ''BTC USDT''), (''timestamp'', JInt 1700000000000),
          (''signature'', JStr ''0627'')]
   \<and> urlencode example_runtime
        [(''symbol'', JStr ''BTC USDT''), (''timestamp'', JInt 1700000000000)] =
       ''symbol=BTC+USDT&timestamp=1700000000000''"
proof -
  have s: "secret_key example_auth_1 = secret_key example_auth_2"
    by (simp add: example_auth_1_def example_auth_2_def)
  have t1: "int_of_float example_runtime
              (float_mul example_runtime (time_provider_time example_auth_1)
                 (float_of_int example_runtime 1000)) = Inr 1700000000000"
    by (simp add: example_runtime_def example_auth_1_def)
  have "\<lfloor>(1700000000 + 1 / 10000) * (1000 :: rat)\<rfloor> = 1700000000000"
    by (simp add: floor_eq_iff)
  then have t2: "int_of_float example_runtime
              (float_mul example_runtime (time_provider_time example_auth_2)
                 (float_of_int example_runtime 1000)) = Inr 1700000000000"
    by (simp add: example_runtime_def example_auth_2_def)
  have d: "str_int 1700000000000 = ''1700000000000''"
    by (simp add: str_int_def str_nat.simps digit_char_def)
  have qd: "quote_plus ''1700000000000'' = ''1700000000000''"
    using quote_plus_str_int [of 1700000000000] by (simp add: d)
  have u: "urlencode example_runtime [(''symbol'', JStr ''BTC USDT'')] = ''symbol=BTC+USDT''"
    by (simp add: urlencode_def quote_plus_def quote_byte_def always_safe_def py_str_def)
  have u2: "urlencode example_runtime
        [(''symbol'', JStr ''BTC USDT''), (''timestamp'', JInt 1700000000000)] =
       ''symbol=BTC+USDT&timestamp=1700000000000''"
    using urlencode_snoc [of example_runtime "[(''symbol'', JStr ''BTC USDT'')]" "''timestamp''"
        "JInt 1700000000000"]
    by (simp add: u d qd quote_plus_timestamp py_str_def)
  have h: "hexdigest (hmac_sha256 example_runtime ''s3cret''
             ''symbol=BTC+USDT&timestamp=1700000000000'') = ''0627''"
    by (simp add: example_runtime_def hexdigest_def hex_lower_def)
  have a: "add_auth_to_params example_runtime example_auth_1 (Some [(''symbol'', JStr ''BTC USDT'')]) =
     Inr [(''symbol'', JStr ''BTC USDT''), (''timestamp'', JInt 1700000000000),
          (''signature'', JStr ''0627'')]"
    using t1 by (simp add: add_auth_to_params_def generate_signature_def u2 h Let_def
        example_auth_1_def)
  have "add_auth_to_params example_runtime example_auth_1 (Some [(''symbol'', JStr ''BTC USDT'')]) =
        add_auth_to_params example_runtime example_auth_2 (Some [(''symbol'', JStr ''BTC USDT'')])"
    using add_auth_to_params_deterministic [OF s t1 t2, of "[(''symbol'', JStr ''BTC USDT'')]"]
    by (rule conjunct1)
  with a u2 show ?thesis by simp
qed

text \<open>
  C8 as stated fails: for the parameter map \<^verbatim>\<open>{"timestamp": 5, "a": 1}\<close> the signer
  replaces the value of the existing key, so the string it signs is
  \<^verbatim>\<open>timestamp=1700000000000&a=1\<close>, whose last parameter is \<^verbatim>\<open>a\<close>; the string of
  the specification, with the timestamp appended last, is another one, and so is its
  digest.
\<close>

theorem add_auth_to_params_counterexample:
  "add_auth_to_params example_runtime example_auth_1
     (Some [(''timestamp'', JInt 5), (''a'', JInt 1)]) =
     Inr [(''timestamp'', JInt 1700000000000), (''a'', JInt 1), (''signature'', JStr ''061b'')]
   \<and> urlencode example_runtime [(''timestamp'', JInt 1700000000000), (''a'', JInt 1)] =
       ''timestamp=1700000000000&a=1''
   \<and> signed_string_as_specified example_runtime [(''timestamp'', JInt 5), (''a'', JInt 1)]
        1700000000000 = ''timestamp=5&a=1&timestamp=1700000000000''
   \<and> hexdigest (hmac_sha256 example_runtime (secret_key example_auth_1)
        (signed_string_as_specified example_runtime [(''timestamp'', JInt 5), (''a'', JInt 1)]
           1700000000000)) = ''0627''"
proof -
  have t1: "int_of_float example_runtime
              (float_mul example_runtime (time_provider_time example_auth_1)
                 (float_of_int example_runtime 1000)) = Inr 1700000000000"
    by (simp add: example_runtime_def example_auth_1_def)
  have d: "str_int 1700000000000 = ''1700000000000''" "str_int 5 = ''5''" "str_int 1 = ''1''"
    by (simp_all add: str_int_def str_nat.simps digit_char_def)
  have q: "quote_plus ''1700000000000'' = ''1700000000000''" "quote_plus ''5'' = ''5''"
    "quote_plus ''1'' = ''1''" "quote_plus ''a'' = ''a''"
    by (simp_all add: quote_plus_def quote_byte_def always_safe_def)
  have u: "urlencode example_runtime [(''timestamp'', JInt 1700000000000), (''a'', JInt 1)] =
       ''timestamp=1700000000000&a=1''"
    by (simp add: urlencode_def py_str_def d q quote_plus_timestamp)
  have sp: "signed_string_as_specified example_runtime [(''timestamp'', JInt 5), (''a'', JInt 1)]
        1700000000000 = ''timestamp=5&a=1&timestamp=1700000000000''"
    by (simp add: signed_string_as_specified_def urlencode_def py_str_def d q quote_plus_timestamp)
  have h1: "hexdigest (hmac_sha256 example_runtime ''s3cret'' ''timestamp=1700000000000&a=1'')
              = ''061b''"
    by (simp add: example_runtime_def hexdigest_def hex_lower_def)
  have h2: "hexdigest (hmac_sha256 example_runtime ''s3cret''
              ''timestamp=5&a=1&timestamp=1700000000000'') = ''0627''"
    by (simp add: example_runtime_def hexdigest_def hex_lower_def)
  have "add_auth_to_params example_runtime example_auth_1
     (Some [(''timestamp'', JInt 5), (''a'', JInt 1)]) =
     Inr [(''timestamp'', JInt 1700000000000), (''a'', JInt 1), (''signature'', JStr ''061b'')]"
    using t1 by (simp add: add_auth_to_params_def generate_signature_def u h1 Let_def
        example_auth_1_def)
  moreover have "hexdigest (hmac_sha256 example_runtime (secret_key example_auth_1)
        (signed_string_as_specified example_runtime [(''timestamp'', JInt 5), (''a'', JInt 1)]
           1700000000000)) = ''0627''"
    by (simp add: sp h2 example_auth_1_def)
  ultimately show ?thesis
    using u sp by simp
qed

text \<open>
  A map that already has a \<^verbatim>\<open>timestamp\<close> key keeps the key where it is: the value is
  replaced, not appended.
\<close>

lemma dict_set_existing_first: "dict_set ((k, v') # d) k v = (k, v) # d"
  by simp

section \<open>Registry population\<close>

text \<open>
  One pass of the loop writes nothing but entries for a symbol that ends in
  \<^verbatim>\<open>USDT\<close>.
\<close>

lemma initialize_symbol_usdt:
  assumes "initialize_symbol L symbol_data (mapping, ids) = Inr (mapping', ids')"
  shows "(\<forall>k. map_of ids' k \<noteq> map_of ids k \<longrightarrow> suffix ''USDT'' k)
         \<and> ((\<forall>k \<in> fst ` set mapping. suffix ''USDT'' k)
               \<longrightarrow> (\<forall>k \<in> fst ` set mapping'. suffix ''USDT'' k))"
proof (cases "subscript symbol_data ''symbol''")
  case (Inl e)
  with assms show ?thesis
    by (simp add: initialize_symbol_def)
next
  case (Inr exchange_symbol)
  show ?thesis
  proof (cases "\<exists>s. exchange_symbol = JStr s \<and> suffix ''USDT'' s")
    case False
    with assms Inr have "mapping' = mapping" "ids' = ids"
      by (auto simp: initialize_symbol_def split: json.splits)
    then show ?thesis by simp
  next
    case True
    then obtain s where s: "exchange_symbol = JStr s" "suffix ''USDT'' s"
      by blast
    from assms Inr s obtain trading_pair cid
      where "bidict_put mapping s trading_pair = Inr mapping'" "ids' = dict_set ids s cid"
      by (auto simp: initialize_symbol_def split: list.splits sum.splits)
    then have "mapping' = dict_set mapping s trading_pair" "ids' = dict_set ids s cid"
      by (auto simp: bidict_put_def split: if_splits)
    with s(2) show ?thesis
      by (simp add: map_of_dict_set keys_dict_set)
  qed
qed

lemma initialize_symbols_usdt:
  assumes "initialize_symbols L data_list (mapping, ids) = ((mapping', ids'), err)"
    and "\<forall>k \<in> fst ` set mapping. suffix ''USDT'' k"
  shows "(\<forall>k. map_of ids' k \<noteq> map_of ids k \<longrightarrow> suffix ''USDT'' k)
         \<and> (\<forall>k \<in> fst ` set mapping'. suffix ''USDT'' k)"
  using assms
proof (induction data_list arbitrary: mapping ids)
  case Nil
  then show ?case by simp
next
  case (Cons symbol_data rest)
  show ?case
  proof (cases "initialize_symbol L symbol_data (mapping, ids)")
    case (Inl e)
    with Cons.prems show ?thesis by simp
  next
    case (Inr st)
    obtain m1 i1 where st: "st = (m1, i1)"
      by (cases st)
    from initialize_symbol_usdt [OF Inr [unfolded st]] Cons.prems(2)
    have one: "\<forall>k. map_of i1 k \<noteq> map_of ids k \<longrightarrow> suffix ''USDT'' k"
      "\<forall>k \<in> fst ` set m1. suffix ''USDT'' k"
      by blast+
    from Cons.prems(1) Inr st
    have "initialize_symbols L rest (m1, i1) = ((mapping', ids'), err)"
      by simp
    from Cons.IH [OF this one(2)]
    have more: "\<forall>k. map_of ids' k \<noteq> map_of i1 k \<longrightarrow> suffix ''USDT'' k"
      "\<forall>k \<in> fst ` set mapping'. suffix ''USDT'' k"
      by blast+
    have "\<forall>k. map_of ids' k \<noteq> map_of ids k \<longrightarrow> suffix ''USDT'' k"
      using one(1) more(1) by metis
    with more(2) show ?thesis by blast
  qed
qed

text \<open>
  C10. Whatever the exchange-info response is, and whether or not the call ends with an
  exception: every entry of \<^verbatim>\<open>_symbol_to_id_map\<close> that the call installs or changes
  has a venue symbol ending in \<^verbatim>\<open>USDT\<close>; the symbol map is either left as it was or
  replaced by a mapping all of whose venue symbols end in \<^verbatim>\<open>USDT\<close>; an entry whose
  symbol is a string not ending in \<^verbatim>\<open>USDT\<close> is passed over without an exception and
  without a change; and a response whose code is not 0 leaves the registry as it was.
\<close>

theorem initialize_trading_pair_symbols_only_usdt:
  assumes "initialize_trading_pair_symbols_from_exchange_info L c exchange_info = (c', err)"
  shows "(\<forall>symbol. map_of (symbol_to_id_map c') symbol \<noteq> map_of (symbol_to_id_map c) symbol
                     \<longrightarrow> suffix ''USDT'' symbol)
       \<and> (trading_pair_symbol_map c' = trading_pair_symbol_map c
            \<or> (\<exists>mapping. trading_pair_symbol_map c' = Some mapping
                  \<and> (\<forall>symbol \<in> fst ` set mapping. suffix ''USDT'' symbol)))
       \<and> (\<forall>symbol_data symbol st.
              map_of symbol_data ''symbol'' = Some (JStr symbol) \<longrightarrow> \<not> suffix ''USDT'' symbol
                \<longrightarrow> initialize_symbol L (JObj symbol_data) st = Inr st)
       \<and> (ne_zero L (dict_get exchange_info ''code'') \<longrightarrow> c' = c \<and> err = None)"
proof -
  have skip: "\<forall>symbol_data symbol st.
              map_of symbol_data ''symbol'' = Some (JStr symbol) \<longrightarrow> \<not> suffix ''USDT'' symbol
                \<longrightarrow> initialize_symbol L (JObj symbol_data) st = Inr st"
    by (simp add: initialize_symbol_def subscript_def dict_item_def)
  show ?thesis
  proof (cases "ne_zero L (dict_get exchange_info ''code'')")
    case True
    with assms have "c' = c" "err = None"
      by (simp_all add: initialize_trading_pair_symbols_from_exchange_info_def)
    with skip show ?thesis by simp
  next
    case False
    show ?thesis
    proof (cases "py_iter (dict_get exchange_info ''data'')")
      case (Inl e)
      with assms False have "c' = c"
        by (simp add: initialize_trading_pair_symbols_from_exchange_info_def)
      with skip False show ?thesis by simp
    next
      case (Inr data_list)
      obtain mapping ids err1
        where run: "initialize_symbols L data_list ([], symbol_to_id_map c) = ((mapping, ids), err1)"
        by (metis surj_pair)
      from initialize_symbols_usdt [OF run]
      have inv: "\<forall>k. map_of ids k \<noteq> map_of (symbol_to_id_map c) k \<longrightarrow> suffix ''USDT'' k"
        "\<forall>k \<in> fst ` set mapping. suffix ''USDT'' k"
        by simp_all
      from assms False Inr run
      have c': "c' = c\<lparr>symbol_to_id_map := ids\<rparr>
                \<or> c' = c\<lparr>symbol_to_id_map := ids, trading_pair_symbol_map := Some mapping\<rparr>"
        by (auto simp: initialize_trading_pair_symbols_from_exchange_info_def
            split: option.splits)
      then have "symbol_to_id_map c' = ids"
        "trading_pair_symbol_map c' = trading_pair_symbol_map c
           \<or> trading_pair_symbol_map c' = Some mapping"
        by auto
      with inv skip False show ?thesis by auto
    qed
  qed
qed

theorem initialize_trading_pair_symbols_only_usdt_witness:
  "initialize_trading_pair_symbols_from_exchange_info example_runtime empty_connector
     example_exchange_info =
     (\<lparr>trading_pair_symbol_map = Some [(''BTCUSDT'', ''BTC-USDT'')],
       symbol_to_id_map = [(''BTCUSDT'', JInt 4)]\<rparr>,
      None)
   \<and> initialize_trading_pair_symbols_from_exchange_info example_runtime example_connector
       example_exchange_error = (example_connector, None)
   \<and> map_of [(''BTCUSDT'', JInt 4 :: rat json)] ''ETHBTC'' = map_of [] ''ETHBTC''"
proof -
  have sp: "str_split ''USDT'' [] ''BTCUSDT'' = [''BTC'', '''']"
    by (simp add: str_split.simps)
  have s1: "initialize_symbol example_runtime (JObj [(''symbol'', JStr ''BTCUSDT''), (''id'', JInt 4)])
              ([], []) = Inr ([(''BTCUSDT'', ''BTC-USDT'')], [(''BTCUSDT'', JInt 4)])"
    by (simp add: initialize_symbol_def subscript_def dict_item_def suffix_to_prefix sp
        bidict_put_def example_runtime_def)
  have s2: "initialize_symbol example_runtime (JObj [(''symbol'', JStr ''ETHBTC''), (''id'', JInt 5)])
              st = Inr st" for st
    by (simp add: initialize_symbol_def subscript_def dict_item_def suffix_to_prefix)
  have run: "initialize_trading_pair_symbols_from_exchange_info example_runtime empty_connector
     example_exchange_info =
     (\<lparr>trading_pair_symbol_map = Some [(''BTCUSDT'', ''BTC-USDT'')],
       symbol_to_id_map = [(''BTCUSDT'', JInt 4)]\<rparr>,
      None)"
    by (simp add: initialize_trading_pair_symbols_from_exchange_info_def example_exchange_info_def
        empty_connector_def dict_get_def ne_zero_def py_iter_def s1 s2)
  have err: "initialize_trading_pair_symbols_from_exchange_info example_runtime example_connector
       example_exchange_error = (example_connector, None)"
    by (simp add: initialize_trading_pair_symbols_from_exchange_info_def
        example_exchange_error_def dict_get_def ne_zero_def)
  have "\<not> suffix ''USDT'' ''ETHBTC''"
    by (simp add: suffix_to_prefix)
  then have "map_of [(''BTCUSDT'', JInt 4 :: rat json)] ''ETHBTC'' = map_of [] ''ETHBTC''"
    using initialize_trading_pair_symbols_only_usdt [OF run]
    by (auto simp: empty_connector_def)
  with run err show ?thesis by simp
qed

text \<open>
  A symbol that holds \<^verbatim>\<open>USDT\<close> twice cannot be unpacked into base and quote: the call
  ends with \<^verbatim>\<open>ValueError\<close> and the symbol map is not installed.
\<close>

lemma initialize_symbol_twice_usdt:
  "initialize_symbol L (JObj [(''symbol'', JStr ''USDTUSDT''), (''id'', JInt 9)]) st = Inl ValueError"
  by (simp add: initialize_symbol_def subscript_def dict_item_def suffix_to_prefix
      str_split.simps)

end
